theory Spec2Isabelle
  imports Main "HOL-Library.Word"
begin

section \<open>Values of the Kubernetes API that the operator reads and writes\<close>

text \<open>
  The operator is a Go program in two variants: \<^verbatim>\<open>main.go\<close> finds its services by a label
  query, the second file takes them from command-line flags. Both share
  \<^verbatim>\<open>nodeAddress\<close>, \<^verbatim>\<open>getNodeAddresses\<close>, \<^verbatim>\<open>CreateOrUpdateEndpoints\<close> and
  \<^verbatim>\<open>periodicSyncer\<close> word for word.

  The structs of \<^verbatim>\<open>k8s.io/api/core/v1\<close> are records holding the fields the program
  touches (and the neighbours that show what it leaves at the zero value). Go strings are
  \<^typ>\<open>string\<close>, \<^verbatim>\<open>int32\<close> is \<^typ>\<open>32 word\<close>, a Go map is a partial function.
\<close>

type_synonym NodeAddressType = string

definition NodeInternalIP :: NodeAddressType where
  "NodeInternalIP = ''InternalIP''"

definition NodeExternalIP :: NodeAddressType where
  "NodeExternalIP = ''ExternalIP''"

record NodeAddress =
  na_Type :: NodeAddressType
  na_Address :: string

text \<open>\<^verbatim>\<open>v1.Node\<close>: \<open>node_Addresses\<close> is \<^verbatim>\<open>Status.Addresses\<close>.\<close>

record Node =
  node_Name :: string
  node_UID :: string
  node_APIVersion :: string
  node_Labels :: "string \<rightharpoonup> string"
  node_Addresses :: "NodeAddress list"

record ObjectReference =
  ref_Kind :: string
  ref_Name :: string
  ref_UID :: string
  ref_APIVersion :: string

text \<open>\<^verbatim>\<open>TargetRef\<close> is a pointer in Go: \<open>None\<close> is nil.\<close>

record EndpointAddress =
  ea_IP :: string
  ea_TargetRef :: "ObjectReference option"

record EndpointPort =
  ep_Name :: string
  ep_Port :: "32 word"
  ep_Protocol :: string

record EndpointSubset =
  Addresses :: "EndpointAddress list"
  Ports :: "EndpointPort list"

text \<open>
  \<^verbatim>\<open>v1.Endpoints\<close>: the fields of \<^verbatim>\<open>ObjectMeta\<close> are flattened into the record. The
  version token of the store is \<^verbatim>\<open>ResourceVersion\<close>; the empty string is "no token".
\<close>

record Endpoints =
  eps_Name :: string
  eps_Namespace :: string
  eps_Labels :: "string \<rightharpoonup> string"
  eps_ResourceVersion :: string
  Subsets :: "EndpointSubset list"

record ServicePort =
  sp_Name :: string
  sp_Port :: "32 word"
  sp_Protocol :: string

text \<open>\<^verbatim>\<open>v1.Service\<close>: \<open>svc_Ports\<close> is \<^verbatim>\<open>Spec.Ports\<close>.\<close>

record k8sService =
  svc_Name :: string
  svc_Namespace :: string
  svc_Labels :: "string \<rightharpoonup> string"
  svc_Annotations :: "string \<rightharpoonup> string"
  svc_Ports :: "ServicePort list"

section \<open>Errors, panics and log lines\<close>

text \<open>
  A Go \<^verbatim>\<open>error\<close> value. \<open>StatusError reason message\<close> is what the API client returns
  when the server answers with a failure status, \<open>ErrorString\<close> is \<^verbatim>\<open>fmt.Errorf\<close> (and
  every other plain error, such as a network failure), \<open>Wrap err message\<close> is
  \<^verbatim>\<open>errors.Wrap(err, message)\<close> of \<^verbatim>\<open>github.com/pkg/errors\<close>.
\<close>

datatype error =
    StatusError string string
  | ErrorString string
  | Wrap error string

text \<open>\<^verbatim>\<open>err.Error()\<close>: a wrapped error prints its message, a colon and its cause.\<close>

fun Error :: "error \<Rightarrow> string" where
  "Error (StatusError reason message) = message"
| "Error (ErrorString message) = message"
| "Error (Wrap err message) = message @ '': '' @ Error err"

definition StatusReasonNotFound :: string where
  "StatusReasonNotFound = ''NotFound''"

text \<open>
  \<^verbatim>\<open>apierrors.IsNotFound\<close>: true on a status error whose reason is NotFound. It is only
  ever applied to the error the client's Get returned (or to nil, where the source's
  test \<^verbatim>\<open>err != nil\<close> comes first).
\<close>

fun IsNotFound :: "error \<Rightarrow> bool" where
  "IsNotFound (StatusError reason message) = (reason = StatusReasonNotFound)"
| "IsNotFound (ErrorString message) = False"
| "IsNotFound (Wrap err message) = False"

text \<open>
  A run-time panic of Go: indexing a slice out of range (index, length). A function that
  can panic returns a \<open>result\<close>; a panic in the syncer's goroutine ends the process.
\<close>

datatype panic = IndexOutOfRange nat nat

datatype 'a result = Panic panic | Return 'a

datatype level = DebugLevel | WarnLevel | ErrorLevel

type_synonym log_entry = "level \<times> string"

section \<open>The node address resolver\<close>

text \<open>
  \<^verbatim>\<open>nodeAddress\<close> (main.go 224-237): group the node's addresses by type, in order, then
  take the first internal address, else the first external one, else fail. The Go
  function returns three values; the error is the last.
\<close>

definition nodeAddress_group ::
  "(NodeAddressType \<rightharpoonup> string list) \<Rightarrow> NodeAddress \<Rightarrow> (NodeAddressType \<rightharpoonup> string list)" where
  "nodeAddress_group m a =
     m(na_Type a \<mapsto> (case m (na_Type a) of None \<Rightarrow> [] | Some xs \<Rightarrow> xs) @ [na_Address a])"

definition nodeAddress ::
  "Node \<Rightarrow> (string \<times> (NodeAddressType \<rightharpoonup> string list) \<times> error option) result" where
  "nodeAddress node =
     (let m = foldl nodeAddress_group Map.empty (node_Addresses node) in
      case m NodeInternalIP of
        Some addresses \<Rightarrow>
          (case addresses of
             [] \<Rightarrow> Panic (IndexOutOfRange 0 0)
           | a # _ \<Rightarrow> Return (a, m, None))
      | None \<Rightarrow>
          (case m NodeExternalIP of
             Some addresses \<Rightarrow>
               (case addresses of
                  [] \<Rightarrow> Panic (IndexOutOfRange 0 0)
                | a # _ \<Rightarrow> Return (a, m, None))
           | None \<Rightarrow> Return ('''', m, Some (ErrorString ''host address unknown''))))"

text \<open>
  \<^verbatim>\<open>getNodeAddresses\<close> (main.go 171-193): the loop over \<^verbatim>\<open>nodes.Items\<close> with its two
  accumulators; a node without an address adds a wrapped error and the loop continues.
\<close>

fun getNodeAddresses_loop ::
  "Node list \<Rightarrow> EndpointAddress list \<Rightarrow> error list \<Rightarrow> (EndpointAddress list \<times> error list) result" where
  "getNodeAddresses_loop [] addresses errs = Return (addresses, errs)"
| "getNodeAddresses_loop (n # ns) addresses errs =
     (case nodeAddress n of
        Panic p \<Rightarrow> Panic p
      | Return (address, _, Some err) \<Rightarrow>
          getNodeAddresses_loop ns addresses
            (errs @ [Wrap err (''failed to determine hostname for node ('' @ node_Name n @ '')'')])
      | Return (address, _, None) \<Rightarrow>
          getNodeAddresses_loop ns
            (addresses @
               [\<lparr>ea_IP = address,
                 ea_TargetRef = Some \<lparr>ref_Kind = ''Node'', ref_Name = node_Name n,
                                       ref_UID = node_UID n, ref_APIVersion = node_APIVersion n\<rparr>\<rparr>])
            errs)"

definition getNodeAddresses :: "Node list \<Rightarrow> (EndpointAddress list \<times> error list) result" where
  "getNodeAddresses nodes = getNodeAddresses_loop nodes [] []"

section \<open>The API client and the world the program runs in\<close>

text \<open>
  \<^verbatim>\<open>kubeClient\<close> is an interface value (\<^verbatim>\<open>corev1client.CoreV1Interface\<close>). The program
  uses six of its methods; each may fail, and each may change the state \<open>'s\<close> of the
  server behind it. Nothing is assumed about a client: the theorems on the program hold
  for every value of this record. The first argument of the service and endpoints
  methods is the namespace the sub-client was made for.
\<close>

record 's CoreV1 =
  Services_List :: "string \<Rightarrow> string \<Rightarrow> 's \<Rightarrow> (error + k8sService list) \<times> 's"
  Services_Get :: "string \<Rightarrow> string \<Rightarrow> 's \<Rightarrow> (error + k8sService) \<times> 's"
  Nodes_List :: "string \<Rightarrow> 's \<Rightarrow> (error + Node list) \<times> 's"
  Endpoints_Get :: "string \<Rightarrow> string \<Rightarrow> 's \<Rightarrow> (error + Endpoints) \<times> 's"
  Endpoints_Create :: "string \<Rightarrow> Endpoints \<Rightarrow> 's \<Rightarrow> (error + Endpoints) \<times> 's"
  Endpoints_Update :: "string \<Rightarrow> Endpoints \<Rightarrow> 's \<Rightarrow> (error + Endpoints) \<times> 's"

text \<open>The requests the program sends, in order.\<close>

datatype call =
    Call_Services_List string string
  | Call_Services_Get string string
  | Call_Nodes_List string
  | Call_Endpoints_Get string string
  | Call_Endpoints_Create string Endpoints
  | Call_Endpoints_Update string Endpoints

text \<open>
  The world: the server's state, the requests sent so far and the lines logged so far.
  The program's own state is this and its local variables.
\<close>

record 's world =
  server :: 's
  calls :: "call list"
  logs :: "log_entry list"

definition logrus :: "level \<Rightarrow> string \<Rightarrow> 's world \<Rightarrow> 's world" where
  "logrus l message w = w\<lparr>logs := logs w @ [(l, message)]\<rparr>"

definition kube_Services_List ::
  "'s CoreV1 \<Rightarrow> string \<Rightarrow> string \<Rightarrow> 's world \<Rightarrow> (error + k8sService list) \<times> 's world" where
  "kube_Services_List c namespace selector w =
     (case Services_List c namespace selector (server w) of
        (r, s) \<Rightarrow> (r, w\<lparr>server := s, calls := calls w @ [Call_Services_List namespace selector]\<rparr>))"

definition kube_Services_Get ::
  "'s CoreV1 \<Rightarrow> string \<Rightarrow> string \<Rightarrow> 's world \<Rightarrow> (error + k8sService) \<times> 's world" where
  "kube_Services_Get c namespace name w =
     (case Services_Get c namespace name (server w) of
        (r, s) \<Rightarrow> (r, w\<lparr>server := s, calls := calls w @ [Call_Services_Get namespace name]\<rparr>))"

definition kube_Nodes_List ::
  "'s CoreV1 \<Rightarrow> string \<Rightarrow> 's world \<Rightarrow> (error + Node list) \<times> 's world" where
  "kube_Nodes_List c selector w =
     (case Nodes_List c selector (server w) of
        (r, s) \<Rightarrow> (r, w\<lparr>server := s, calls := calls w @ [Call_Nodes_List selector]\<rparr>))"

definition kube_Endpoints_Get ::
  "'s CoreV1 \<Rightarrow> string \<Rightarrow> string \<Rightarrow> 's world \<Rightarrow> (error + Endpoints) \<times> 's world" where
  "kube_Endpoints_Get c namespace name w =
     (case Endpoints_Get c namespace name (server w) of
        (r, s) \<Rightarrow> (r, w\<lparr>server := s, calls := calls w @ [Call_Endpoints_Get namespace name]\<rparr>))"

definition kube_Endpoints_Create ::
  "'s CoreV1 \<Rightarrow> string \<Rightarrow> Endpoints \<Rightarrow> 's world \<Rightarrow> (error + Endpoints) \<times> 's world" where
  "kube_Endpoints_Create c namespace eps w =
     (case Endpoints_Create c namespace eps (server w) of
        (r, s) \<Rightarrow> (r, w\<lparr>server := s, calls := calls w @ [Call_Endpoints_Create namespace eps]\<rparr>))"

definition kube_Endpoints_Update ::
  "'s CoreV1 \<Rightarrow> string \<Rightarrow> Endpoints \<Rightarrow> 's world \<Rightarrow> (error + Endpoints) \<times> 's world" where
  "kube_Endpoints_Update c namespace eps w =
     (case Endpoints_Update c namespace eps (server w) of
        (r, s) \<Rightarrow> (r, w\<lparr>server := s, calls := calls w @ [Call_Endpoints_Update namespace eps]\<rparr>))"

section \<open>Create or update\<close>

text \<open>
  \<^verbatim>\<open>CreateOrUpdateEndpoints\<close> (main.go 149-169). \<^verbatim>\<open>eclient\<close> is the endpoints client of
  one namespace; \<^verbatim>\<open>eps\<close> is a pointer, and the function writes through it, so the model
  returns the record \<^verbatim>\<open>eps\<close> points to when the function returns, beside the error
  (\<open>None\<close> is nil) and the world. The client reads the record it is handed and answers
  with a record of its own.
\<close>

definition CreateOrUpdateEndpoints ::
  "'s CoreV1 \<Rightarrow> string \<Rightarrow> Endpoints \<Rightarrow> 's world \<Rightarrow> error option \<times> Endpoints \<times> 's world" where
  "CreateOrUpdateEndpoints c namespace eps w =
     (case kube_Endpoints_Get c namespace (eps_Name eps) w of
        (Inl err, w1) \<Rightarrow>
          if \<not> IsNotFound err
          then (Some (Wrap err ''retrieving existing kubelet endpoints object failed''), eps, w1)
          else
            (case kube_Endpoints_Create c namespace eps w1 of
               (Inl err', w2) \<Rightarrow>
                 (Some (Wrap err' ''creating kubelet endpoints object failed''), eps, w2)
             | (Inr _, w2) \<Rightarrow> (None, eps, w2))
      | (Inr endpoints, w1) \<Rightarrow>
          (let eps' = eps\<lparr>eps_ResourceVersion := eps_ResourceVersion endpoints\<rparr> in
           case kube_Endpoints_Update c namespace eps' w1 of
             (Inl err', w2) \<Rightarrow>
               (Some (Wrap err' ''updating kubelet endpoints object failed''), eps', w2)
           | (Inr _, w2) \<Rightarrow> (None, eps', w2)))"

section \<open>One service: build the record and apply it\<close>

text \<open>
  \<^verbatim>\<open>eps.Subsets[0].F = ...\<close>: an assignment into the first subset. Go checks the index.
\<close>

definition update_Subsets0 ::
  "(EndpointSubset \<Rightarrow> EndpointSubset) \<Rightarrow> Endpoints \<Rightarrow> Endpoints result" where
  "update_Subsets0 f eps =
     (case Subsets eps of
        [] \<Rightarrow> Panic (IndexOutOfRange 0 0)
      | s # ss \<Rightarrow> Return (eps\<lparr>Subsets := f s # ss\<rparr>))"

text \<open>The loop over \<^verbatim>\<open>service.Spec.Ports\<close> (main.go 121-126).\<close>

fun syncNodeEndpoints_ports :: "ServicePort list \<Rightarrow> Endpoints \<Rightarrow> Endpoints result" where
  "syncNodeEndpoints_ports [] eps = Return eps"
| "syncNodeEndpoints_ports (port # ports) eps =
     (case update_Subsets0
             (\<lambda>s. s\<lparr>Ports := Ports s @
                       [\<lparr>ep_Name = sp_Name port, ep_Port = sp_Port port, ep_Protocol = ''''\<rparr>]\<rparr>)
             eps of
        Panic p \<Rightarrow> Panic p
      | Return eps' \<Rightarrow> syncNodeEndpoints_ports ports eps')"

text \<open>
  The record as it is first made (main.go 109-119: name and labels of the service, one
  subset, every other field at its zero value), with the ports appended (121-126).
\<close>

definition syncNodeEndpoints_eps :: "k8sService \<Rightarrow> Endpoints result" where
  "syncNodeEndpoints_eps service =
     syncNodeEndpoints_ports (svc_Ports service)
       \<lparr>eps_Name = svc_Name service, eps_Namespace = '''', eps_Labels = svc_Labels service,
         eps_ResourceVersion = '''', Subsets = [\<lparr>Addresses = [], Ports = []\<rparr>]\<rparr>"

text \<open>
  main.go 109-146, which the static variant repeats word for word (its lines 141-179):
  everything \<^verbatim>\<open>syncNodeEndpoints\<close> does once it holds the service object. The result is
  the error returned (\<open>None\<close> is nil) and the world.
\<close>

definition syncNodeEndpoints_service ::
  "'s CoreV1 \<Rightarrow> k8sService \<Rightarrow> string \<Rightarrow> 's world \<Rightarrow> (error option \<times> 's world) result" where
  "syncNodeEndpoints_service c service nodeSelector w =
     (case syncNodeEndpoints_eps service of
        Panic p \<Rightarrow> Panic p
      | Return eps \<Rightarrow>
          (case kube_Nodes_List c nodeSelector w of
             (Inl err, w1) \<Rightarrow> Return (Some (Wrap err ''listing nodes failed''), w1)
           | (Inr nodes, w1) \<Rightarrow>
               (case getNodeAddresses nodes of
                  Panic p \<Rightarrow> Panic p
                | Return (addresses, errs) \<Rightarrow>
                    (let w2 = foldl (\<lambda>w err. logrus WarnLevel
                                     (''error getting node address: '' @ Error err) w) w1 errs in
                     case update_Subsets0 (\<lambda>s. s\<lparr>Addresses := addresses\<rparr>) eps of
                       Panic p \<Rightarrow> Panic p
                     | Return eps' \<Rightarrow>
                         (case CreateOrUpdateEndpoints c (svc_Namespace service) eps' w2 of
                            (Some err, _, w3) \<Rightarrow>
                              Return (Some (Wrap err
                                ''synchronizing kubelet endpoints object failed''), w3)
                          | (None, _, w3) \<Rightarrow> Return (None, w3))))))"

text \<open>\<^verbatim>\<open>syncNodeEndpoints\<close> of main.go (102-147).\<close>

definition syncNodeEndpoints ::
  "'s CoreV1 \<Rightarrow> string \<Rightarrow> string \<Rightarrow> string \<Rightarrow> 's world \<Rightarrow> (error option \<times> 's world) result" where
  "syncNodeEndpoints c namespace svc nodeSelector w =
     (case kube_Services_Get c namespace svc (logrus DebugLevel (''starting sync of '' @ svc) w) of
        (Inl err, w1) \<Rightarrow> Return (Some err, w1)
      | (Inr service, w1) \<Rightarrow> syncNodeEndpoints_service c service nodeSelector w1)"

section \<open>One cycle, label-query variant\<close>

definition nodeSelectorLabel :: string where
  "nodeSelectorLabel = ''endpoints-operator.fnox.se/node-selector''"

text \<open>\<^verbatim>\<open>labels.Set(endpointsSyncEnabledService.MatchLabels).String()\<close>.\<close>

definition endpointsSyncEnabledService :: string where
  "endpointsSyncEnabledService = ''endpoints-operator.fnox.se/enabled=true''"

text \<open>The loop of \<^verbatim>\<open>syncAndLog\<close> over the listed services (main.go 88-99).\<close>

fun syncAndLog_loop :: "'s CoreV1 \<Rightarrow> k8sService list \<Rightarrow> 's world \<Rightarrow> 's world result" where
  "syncAndLog_loop c [] w = Return w"
| "syncAndLog_loop c (svc # rest) w =
     (case svc_Annotations svc nodeSelectorLabel of
        None \<Rightarrow>
          syncAndLog_loop c rest
            (logrus ErrorLevel
               (''missing '' @ nodeSelectorLabel @ '' label on service '' @ svc_Name svc) w)
      | Some nodeSelector \<Rightarrow>
          (case syncNodeEndpoints c (svc_Namespace svc) (svc_Name svc) nodeSelector w of
             Panic p \<Rightarrow> Panic p
           | Return (Some err, w1) \<Rightarrow> syncAndLog_loop c rest (logrus ErrorLevel (Error err) w1)
           | Return (None, w1) \<Rightarrow> syncAndLog_loop c rest w1))"

text \<open>\<^verbatim>\<open>syncAndLog\<close> of main.go (79-100).\<close>

definition syncAndLog :: "'s CoreV1 \<Rightarrow> 's world \<Rightarrow> 's world result" where
  "syncAndLog c w =
     (case kube_Services_List c '''' endpointsSyncEnabledService w of
        (Inl err, w1) \<Rightarrow> Return (logrus ErrorLevel (Error err) w1)
      | (Inr items, w1) \<Rightarrow> syncAndLog_loop c items w1)"

section \<open>The static-mapping variant\<close>

text \<open>
  The second program takes its services from flags. \<^verbatim>\<open>Service\<close> is its own struct
  (lines 32-36); \<open>service\<close> is the target \<^verbatim>\<open>namespace/name\<close>.
\<close>

record Service =
  NodeLabelSelector :: string
  service :: string
  Name :: string

text \<open>
  \<^verbatim>\<open>strings.Split(s, sep)\<close> for a separator of one byte, which is how the program calls
  it: the pieces of \<open>s\<close> between the separators, so one piece more than there are
  separators (and the one empty piece for the empty string).
\<close>

fun strings_Split :: "string \<Rightarrow> char \<Rightarrow> string list" where
  "strings_Split [] sep = [[]]"
| "strings_Split (c # cs) sep =
     (if c = sep then [] # strings_Split cs sep
      else (case strings_Split cs sep of [] \<Rightarrow> [[c]] | p # ps \<Rightarrow> (c # p) # ps))"

text \<open>\<^verbatim>\<open>parts[i]\<close>: Go panics when the index is out of range.\<close>

definition slice_index :: "'a list \<Rightarrow> nat \<Rightarrow> 'a result" where
  "slice_index xs i =
     (if i < length xs then Return (xs ! i) else Panic (IndexOutOfRange i (length xs)))"

text \<open>\<^verbatim>\<open>Service.Namespace\<close> and \<^verbatim>\<open>Service.Service\<close> (lines 38-45).\<close>

definition Service_Namespace :: "Service \<Rightarrow> string result" where
  "Service_Namespace s = slice_index (strings_Split (service s) CHR ''/'') 0"

definition Service_Service :: "Service \<Rightarrow> string result" where
  "Service_Service s = slice_index (strings_Split (service s) CHR ''/'') 1"

text \<open>The package variable \<^verbatim>\<open>serviceList\<close> (lines 47-54) before the flags are read.\<close>

definition serviceList :: "Service list" where
  "serviceList =
     [\<lparr>NodeLabelSelector = '''', service = '''', Name = ''scheduler''\<rparr>,
      \<lparr>NodeLabelSelector = '''', service = '''', Name = ''controller-manager''\<rparr>]"

text \<open>
  Lines 66-71: two string flags per role, \<^verbatim>\<open><role>-node-label\<close> and \<^verbatim>\<open><role>-service\<close>,
  both empty by default, then \<^verbatim>\<open>flag.Parse\<close>. \<open>args\<close> maps a flag's name to the value
  the command line gives it.
\<close>

definition flag_Parse :: "(string \<rightharpoonup> string) \<Rightarrow> Service list \<Rightarrow> Service list" where
  "flag_Parse args list =
     map (\<lambda>v. v\<lparr>NodeLabelSelector :=
                   (case args (Name v @ ''-node-label'') of None \<Rightarrow> '''' | Some x \<Rightarrow> x),
                 service :=
                   (case args (Name v @ ''-service'') of None \<Rightarrow> '''' | Some x \<Rightarrow> x)\<rparr>)
       list"

text \<open>
  The check of \<^verbatim>\<open>main\<close> (lines 73-82): the first target that is not empty and does not
  split into two parts, if there is one.
\<close>

fun main_validate :: "Service list \<Rightarrow> string option" where
  "main_validate [] = None"
| "main_validate (v # vs) =
     (if service v = '''' then main_validate vs
      else if length (strings_Split (service v) CHR ''/'') \<noteq> 2 then Some (service v)
      else main_validate vs)"

text \<open>
  \<^verbatim>\<open>syncNodeEndpoints\<close> of the static variant (lines 133-180). The arguments of
  \<^verbatim>\<open>kubeClient.Services(svc.Namespace()).Get(svc.Service(), ...)\<close> are evaluated left to
  right.
\<close>

definition syncNodeEndpoints_static ::
  "'s CoreV1 \<Rightarrow> Service \<Rightarrow> 's world \<Rightarrow> (error option \<times> 's world) result" where
  "syncNodeEndpoints_static c svc w =
     (let w0 = logrus DebugLevel (''starting sync of '' @ Name svc) w in
      case Service_Namespace svc of
        Panic p \<Rightarrow> Panic p
      | Return namespace \<Rightarrow>
          (case Service_Service svc of
             Panic p \<Rightarrow> Panic p
           | Return name \<Rightarrow>
               (case kube_Services_Get c namespace name w0 of
                  (Inl err, w1) \<Rightarrow> Return (Some err, w1)
                | (Inr service', w1) \<Rightarrow>
                    syncNodeEndpoints_service c service' (NodeLabelSelector svc) w1)))"

text \<open>\<^verbatim>\<open>syncAndLog\<close> of the static variant (lines 121-131), over the value of \<^verbatim>\<open>serviceList\<close>.\<close>

fun syncAndLog_static :: "'s CoreV1 \<Rightarrow> Service list \<Rightarrow> 's world \<Rightarrow> 's world result" where
  "syncAndLog_static c [] w = Return w"
| "syncAndLog_static c (svc # rest) w =
     (if service svc = '''' then syncAndLog_static c rest w
      else
        (case syncNodeEndpoints_static c svc w of
           Panic p \<Rightarrow> Panic p
         | Return (Some err, w1) \<Rightarrow> syncAndLog_static c rest (logrus ErrorLevel (Error err) w1)
         | Return (None, w1) \<Rightarrow> syncAndLog_static c rest w1))"

section \<open>The scheduler\<close>

text \<open>
  \<^verbatim>\<open>periodicSyncer\<close> (main.go 61-73, the same in both variants) runs in a goroutine of its
  own beside the world that closes \<^verbatim>\<open>stopc\<close> and the runtime that feeds the ticker's
  channel. It is a transition system. The syncer is at one of its program points;
  \<open>stop_ready\<close> says that a receive from \<^verbatim>\<open>stopc\<close> can proceed, \<open>tick_ready\<close> that one from
  \<^verbatim>\<open>ticker.C\<close> can (the channel holds one tick at most). \<open>begun\<close> and \<open>ended\<close> count the
  calls of \<^verbatim>\<open>syncAndLog\<close> and its returns.
\<close>

datatype syncer_pc = AtStart | InCycle | AtSelect | Returned | Crashed panic

record 's syncer =
  pc :: syncer_pc
  ticker :: "64 word option"
  tick_ready :: bool
  stop_ready :: bool
  begun :: nat
  ended :: nat
  now :: "'s world"

text \<open>\<^verbatim>\<open>time.Minute\<close>, a \<^verbatim>\<open>time.Duration\<close>: nanoseconds in an \<^verbatim>\<open>int64\<close>.\<close>

definition time_Minute :: "64 word" where
  "time_Minute = 60 * 1000000000"

text \<open>
  The moves. Two belong to the surroundings: the stop signal arrives, the ticker fires
  (only a ticker that exists fires). Four are the syncer's: the call on line 62; the
  return of a call of \<^verbatim>\<open>syncAndLog\<close> (after the first one, line 63 makes the ticker), or
  its panic; and the two cases of the \<^verbatim>\<open>select\<close>. A \<^verbatim>\<open>select\<close> takes any case whose
  receive can proceed; when both can, either may be taken.
\<close>

datatype event =
    Env_Stop
  | Env_Tick
  | First_Cycle
  | Cycle_Returns
  | Select_Stop
  | Select_Tick

definition periodicSyncer_step ::
  "('s world \<Rightarrow> 's world result) \<Rightarrow> event \<Rightarrow> 's syncer \<Rightarrow> 's syncer option" where
  "periodicSyncer_step cycle e s =
     (case e of
        Env_Stop \<Rightarrow> Some (s\<lparr>stop_ready := True\<rparr>)
      | Env_Tick \<Rightarrow>
          (case ticker s of None \<Rightarrow> None | Some d \<Rightarrow> Some (s\<lparr>tick_ready := True\<rparr>))
      | First_Cycle \<Rightarrow>
          if pc s = AtStart then Some (s\<lparr>pc := InCycle, begun := Suc (begun s)\<rparr>) else None
      | Cycle_Returns \<Rightarrow>
          if pc s = InCycle
          then (case cycle (now s) of
                  Panic p \<Rightarrow> Some (s\<lparr>pc := Crashed p\<rparr>)
                | Return w \<Rightarrow>
                    Some (s\<lparr>pc := AtSelect, ended := Suc (ended s), now := w,
                            ticker := (case ticker s of
                                         None \<Rightarrow> Some (2 * time_Minute)
                                       | Some d \<Rightarrow> Some d)\<rparr>))
          else None
      | Select_Stop \<Rightarrow>
          if pc s = AtSelect \<and> stop_ready s
          then Some (s\<lparr>pc := Returned, ticker := None\<rparr>) else None
      | Select_Tick \<Rightarrow>
          if pc s = AtSelect \<and> tick_ready s
          then Some (s\<lparr>pc := InCycle, tick_ready := False, begun := Suc (begun s)\<rparr>)
          else None)"

text \<open>A run: the moves of a list taken in order; \<open>None\<close> when one of them cannot be taken.\<close>

fun periodicSyncer_run ::
  "('s world \<Rightarrow> 's world result) \<Rightarrow> event list \<Rightarrow> 's syncer \<Rightarrow> 's syncer option" where
  "periodicSyncer_run cycle [] s = Some s"
| "periodicSyncer_run cycle (e # es) s =
     (case periodicSyncer_step cycle e s of
        None \<Rightarrow> None
      | Some s' \<Rightarrow> periodicSyncer_run cycle es s')"

definition periodicSyncer_init :: "'s world \<Rightarrow> 's syncer" where
  "periodicSyncer_init w =
     \<lparr>pc = AtStart, ticker = None, tick_ready = False, stop_ready = False,
       begun = 0, ended = 0, now = w\<rparr>"

text \<open>
  \<^verbatim>\<open>main\<close> of the static variant (lines 63-105). It either returns on line 80, having
  logged the malformed target and started nothing, or goes on to make the client and to
  start the metrics listener and the syncer (lines 84-104), which then work on the
  validated list.
\<close>

datatype 's startup = Exit "'s world" | Serve "Service list" "'s syncer"

definition main_static :: "(string \<rightharpoonup> string) \<Rightarrow> 's world \<Rightarrow> 's startup" where
  "main_static args w =
     (let list = flag_Parse args serviceList in
      case main_validate list of
        Some target \<Rightarrow>
          Exit (logrus ErrorLevel
                  (''malformatted kubelet object string '' @ target @
                   '', must be in format '' @ [CHR 0x22] @ ''namespace/name'' @ [CHR 0x22]) w)
      | None \<Rightarrow> Serve list (periodicSyncer_init w))"

section \<open>An API server in memory\<close>

text \<open>
  The server is outside the repository. This one keeps services, nodes and endpoints
  records and behaves as the specification describes the store: a read of a record
  that does not exist fails with NotFound; every write stores the record under a new
  version token; an update is refused with Conflict unless it carries the token of the
  stored record. \<open>cl_matches\<close> is the server's evaluation of a label selector, and
  \<open>cl_faults\<close> names the requests the server fails outright (an outage, a refusal),
  with the error it answers.
\<close>

record cluster =
  cl_services :: "k8sService list"
  cl_nodes :: "Node list"
  cl_endpoints :: "(string \<times> string) \<rightharpoonup> Endpoints"
  cl_revision :: nat
  cl_matches :: "string \<Rightarrow> (string \<rightharpoonup> string) \<Rightarrow> bool"
  cl_faults :: "call \<Rightarrow> error option"

text \<open>The token of the \<open>n\<close>-th write: opaque to the program, never empty.\<close>

definition store_token :: "nat \<Rightarrow> string" where
  "store_token n = CHR ''v'' # replicate n (CHR ''i'')"

definition mem_NotFound :: "string \<Rightarrow> string \<Rightarrow> error" where
  "mem_NotFound kind name = StatusError StatusReasonNotFound (kind @ '' '' @ name @ '' not found'')"

definition mem_Services_List ::
  "string \<Rightarrow> string \<Rightarrow> cluster \<Rightarrow> (error + k8sService list) \<times> cluster" where
  "mem_Services_List namespace selector s =
     (case cl_faults s (Call_Services_List namespace selector) of
        Some e \<Rightarrow> (Inl e, s)
      | None \<Rightarrow>
          (Inr (filter (\<lambda>svc. (namespace = '''' \<or> svc_Namespace svc = namespace) \<and>
                              cl_matches s selector (svc_Labels svc)) (cl_services s)), s))"

definition mem_Services_Get ::
  "string \<Rightarrow> string \<Rightarrow> cluster \<Rightarrow> (error + k8sService) \<times> cluster" where
  "mem_Services_Get namespace name s =
     (case cl_faults s (Call_Services_Get namespace name) of
        Some e \<Rightarrow> (Inl e, s)
      | None \<Rightarrow>
          (case find (\<lambda>svc. svc_Namespace svc = namespace \<and> svc_Name svc = name)
                  (cl_services s) of
             None \<Rightarrow> (Inl (mem_NotFound ''services'' name), s)
           | Some svc \<Rightarrow> (Inr svc, s)))"

definition mem_Nodes_List :: "string \<Rightarrow> cluster \<Rightarrow> (error + Node list) \<times> cluster" where
  "mem_Nodes_List selector s =
     (case cl_faults s (Call_Nodes_List selector) of
        Some e \<Rightarrow> (Inl e, s)
      | None \<Rightarrow> (Inr (filter (\<lambda>n. cl_matches s selector (node_Labels n)) (cl_nodes s)), s))"

definition mem_Endpoints_Get ::
  "string \<Rightarrow> string \<Rightarrow> cluster \<Rightarrow> (error + Endpoints) \<times> cluster" where
  "mem_Endpoints_Get namespace name s =
     (case cl_faults s (Call_Endpoints_Get namespace name) of
        Some e \<Rightarrow> (Inl e, s)
      | None \<Rightarrow>
          (case cl_endpoints s (namespace, name) of
             None \<Rightarrow> (Inl (mem_NotFound ''endpoints'' name), s)
           | Some stored \<Rightarrow> (Inr stored, s)))"

definition mem_store :: "string \<Rightarrow> Endpoints \<Rightarrow> cluster \<Rightarrow> (error + Endpoints) \<times> cluster" where
  "mem_store namespace eps s =
     (let stored = eps\<lparr>eps_Namespace := namespace,
                       eps_ResourceVersion := store_token (Suc (cl_revision s))\<rparr> in
      (Inr stored,
       s\<lparr>cl_endpoints := (cl_endpoints s)((namespace, eps_Name eps) \<mapsto> stored),
         cl_revision := Suc (cl_revision s)\<rparr>))"

definition mem_Endpoints_Create ::
  "string \<Rightarrow> Endpoints \<Rightarrow> cluster \<Rightarrow> (error + Endpoints) \<times> cluster" where
  "mem_Endpoints_Create namespace eps s =
     (case cl_faults s (Call_Endpoints_Create namespace eps) of
        Some e \<Rightarrow> (Inl e, s)
      | None \<Rightarrow>
          (case cl_endpoints s (namespace, eps_Name eps) of
             Some stored \<Rightarrow>
               (Inl (StatusError ''AlreadyExists''
                      (''endpoints '' @ eps_Name eps @ '' already exists'')), s)
           | None \<Rightarrow> mem_store namespace eps s))"

definition mem_Endpoints_Update ::
  "string \<Rightarrow> Endpoints \<Rightarrow> cluster \<Rightarrow> (error + Endpoints) \<times> cluster" where
  "mem_Endpoints_Update namespace eps s =
     (case cl_faults s (Call_Endpoints_Update namespace eps) of
        Some e \<Rightarrow> (Inl e, s)
      | None \<Rightarrow>
          (case cl_endpoints s (namespace, eps_Name eps) of
             None \<Rightarrow> (Inl (mem_NotFound ''endpoints'' (eps_Name eps)), s)
           | Some stored \<Rightarrow>
               if eps_ResourceVersion eps \<noteq> eps_ResourceVersion stored
               then (Inl (StatusError ''Conflict''
                            (''the object has been modified: endpoints '' @ eps_Name eps)), s)
               else mem_store namespace eps s))"

definition mem_client :: "cluster CoreV1" where
  "mem_client =
     \<lparr>Services_List = mem_Services_List, Services_Get = mem_Services_Get,
       Nodes_List = mem_Nodes_List, Endpoints_Get = mem_Endpoints_Get,
       Endpoints_Create = mem_Endpoints_Create, Endpoints_Update = mem_Endpoints_Update\<rparr>"

text \<open>A selector of the form \<^verbatim>\<open>key=value\<close>, the only form the examples below use.\<close>

definition equality_selector :: "string \<Rightarrow> (string \<rightharpoonup> string) \<Rightarrow> bool" where
  "equality_selector selector labels =
     (case strings_Split selector CHR ''='' of
        [k, v] \<Rightarrow> labels k = Some v
      | _ \<Rightarrow> False)"

section \<open>What the specification calls things\<close>

text \<open>
  The addresses of one type that a machine reports, in the order it reports them, and
  the specification's choice among them: an internal address first; if there is none,
  an external one; if there is neither, none.
\<close>

definition addresses_of_type :: "NodeAddressType \<Rightarrow> Node \<Rightarrow> string list" where
  "addresses_of_type t node =
     map na_Address (filter (\<lambda>a. na_Type a = t) (node_Addresses node))"

definition selectAddress :: "Node \<Rightarrow> string option" where
  "selectAddress node =
     (case addresses_of_type NodeInternalIP node of
        a # _ \<Rightarrow> Some a
      | [] \<Rightarrow> (case addresses_of_type NodeExternalIP node of a # _ \<Rightarrow> Some a | [] \<Rightarrow> None))"

text \<open>A machine that has neither an internal nor an external address.\<close>

definition lacksAddress :: "Node \<Rightarrow> bool" where
  "lacksAddress node =
     (addresses_of_type NodeInternalIP node = [] \<and> addresses_of_type NodeExternalIP node = [])"

text \<open>The entry of the result for a machine with an address, and the error for one without.\<close>

definition MachineAddress :: "Node \<Rightarrow> string \<Rightarrow> EndpointAddress" where
  "MachineAddress n ip =
     \<lparr>ea_IP = ip,
       ea_TargetRef = Some \<lparr>ref_Kind = ''Node'', ref_Name = node_Name n,
                             ref_UID = node_UID n, ref_APIVersion = node_APIVersion n\<rparr>\<rparr>"

definition PerNodeError :: "Node \<Rightarrow> error" where
  "PerNodeError n =
     Wrap (ErrorString ''host address unknown'')
       (''failed to determine hostname for node ('' @ node_Name n @ '')'')"

definition resolved :: "Node \<Rightarrow> EndpointAddress option" where
  "resolved n = (case selectAddress n of Some ip \<Rightarrow> Some (MachineAddress n ip) | None \<Rightarrow> None)"

definition excluded :: "Node \<Rightarrow> error option" where
  "excluded n = (case selectAddress n of Some ip \<Rightarrow> None | None \<Rightarrow> Some (PerNodeError n))"

text \<open>The port of the record that a declared port of the service becomes.\<close>

definition EndpointPort_of :: "ServicePort \<Rightarrow> EndpointPort" where
  "EndpointPort_of port = \<lparr>ep_Name = sp_Name port, ep_Port = sp_Port port, ep_Protocol = ''''\<rparr>"

text \<open>The writes among the requests sent.\<close>

fun is_write :: "call \<Rightarrow> bool" where
  "is_write (Call_Endpoints_Create namespace eps) = True"
| "is_write (Call_Endpoints_Update namespace eps) = True"
| "is_write _ = False"

text \<open>
  The discovery record of a service and a list of addresses, as the specification's
  builder returns it: named and labelled after the service, one subset holding every
  declared port and every address, and no version token.
\<close>

definition DiscoveryRecord :: "k8sService \<Rightarrow> EndpointAddress list \<Rightarrow> Endpoints" where
  "DiscoveryRecord srv addresses =
     \<lparr>eps_Name = svc_Name srv, eps_Namespace = '''', eps_Labels = svc_Labels srv,
       eps_ResourceVersion = '''',
       Subsets = [\<lparr>Addresses = addresses, Ports = map EndpointPort_of (svc_Ports srv)\<rparr>]\<rparr>"

text \<open>The warnings logged for a list of per-node errors.\<close>

definition log_warnings :: "error list \<Rightarrow> 's world \<Rightarrow> 's world" where
  "log_warnings errs w =
     w\<lparr>logs := logs w @
         map (\<lambda>err. (WarnLevel, ''error getting node address: '' @ Error err)) errs\<rparr>"

fun is_Services_Get :: "call \<Rightarrow> bool" where
  "is_Services_Get (Call_Services_Get namespace name) = True"
| "is_Services_Get _ = False"

text \<open>
  Three abbreviations for runs on the server in memory: the addresses the machines
  that match a selector resolve to; the world just before the record of a service is
  applied (the service fetched, the nodes listed, the warnings logged); and the record
  and the request that applying a record to the server sends.
\<close>

definition mem_addresses :: "cluster \<Rightarrow> string \<Rightarrow> EndpointAddress list" where
  "mem_addresses s sel =
     List.map_filter resolved (filter (\<lambda>n. cl_matches s sel (node_Labels n)) (cl_nodes s))"

definition mem_prepared :: "cluster world \<Rightarrow> string \<Rightarrow> string \<Rightarrow> string \<Rightarrow> cluster world" where
  "mem_prepared w ns name sel =
     log_warnings
       (List.map_filter excluded
          (filter (\<lambda>n. cl_matches (server w) sel (node_Labels n)) (cl_nodes (server w))))
       (w\<lparr>calls := calls w @ [Call_Services_Get ns name, Call_Nodes_List sel],
          logs := logs w @ [(DebugLevel, ''starting sync of '' @ name)]\<rparr>)"

definition mem_written :: "cluster \<Rightarrow> string \<Rightarrow> Endpoints \<Rightarrow> Endpoints" where
  "mem_written s ns eps =
     (case cl_endpoints s (ns, eps_Name eps) of
        None \<Rightarrow> eps
      | Some old \<Rightarrow> eps\<lparr>eps_ResourceVersion := eps_ResourceVersion old\<rparr>)"

definition mem_write :: "cluster \<Rightarrow> string \<Rightarrow> Endpoints \<Rightarrow> call" where
  "mem_write s ns eps =
     (case cl_endpoints s (ns, eps_Name eps) of
        None \<Rightarrow> Call_Endpoints_Create ns eps
      | Some old \<Rightarrow> Call_Endpoints_Update ns (eps\<lparr>eps_ResourceVersion := eps_ResourceVersion old\<rparr>))"

text \<open>A listed service that carries the node-selector annotation.\<close>

definition annotated :: "k8sService \<Rightarrow> bool" where
  "annotated svc = (svc_Annotations svc nodeSelectorLabel \<noteq> None)"

text \<open>
  A role that has a target, and a target of the form \<^verbatim>\<open>namespace/name\<close>: one that splits
  into exactly two parts around the separator.
\<close>

definition configured :: "Service \<Rightarrow> bool" where
  "configured v = (service v \<noteq> '''')"

definition wellformed :: "string \<Rightarrow> bool" where
  "wellformed target = (length (strings_Split target CHR ''/'') = 2)"

text \<open>The line that \<^verbatim>\<open>main\<close> logs for a malformed target.\<close>

definition malformatted :: "string \<Rightarrow> log_entry" where
  "malformatted target =
     (ErrorLevel,
      ''malformatted kubelet object string '' @ target @
      '', must be in format '' @ [CHR 0x22] @ ''namespace/name'' @ [CHR 0x22])"

text \<open>
  What holds of the syncer at each of its program points: the calls of \<^verbatim>\<open>syncAndLog\<close>
  begun exceed those ended by one while a call is running and by nothing otherwise; the
  ticker exists from the moment the first call has returned until the syncer returns,
  and its period is two minutes; the syncer has returned only after the stop signal.
\<close>

definition syncer_ok :: "'s syncer \<Rightarrow> bool" where
  "syncer_ok s =
     ((case pc s of
         AtStart \<Rightarrow> begun s = 0 \<and> ended s = 0 \<and> ticker s = None \<and> \<not> tick_ready s
       | InCycle \<Rightarrow> begun s = Suc (ended s)
       | AtSelect \<Rightarrow> begun s = ended s \<and> ticker s = Some (2 * time_Minute)
       | Returned \<Rightarrow> begun s = ended s \<and> stop_ready s \<and> ticker s = None
       | Crashed p \<Rightarrow> begun s = Suc (ended s)) \<and>
      (case ticker s of None \<Rightarrow> True | Some d \<Rightarrow> d = 2 * time_Minute \<and> 1 \<le> ended s))"

text \<open>The moves of the syncer that call \<^verbatim>\<open>syncAndLog\<close>.\<close>

fun begins_cycle :: "event \<Rightarrow> bool" where
  "begins_cycle First_Cycle = True"
| "begins_cycle Select_Tick = True"
| "begins_cycle _ = False"

section \<open>A small cluster to run the program on\<close>

text \<open>
  The scenario of the specification: the service
  \<^verbatim>\<open>kube-system/kube-scheduler-prometheus-discovery\<close> declares the port
  \<^verbatim>\<open>(http-metrics, 10251)\<close>; the selector matches a machine with an internal address
  (and an external one, reported first), a machine with an external address only, and a
  machine that reports a host name and nothing else.
\<close>

definition ex_selector :: string where
  "ex_selector = ''role=controlplane''"

definition ex_labels :: "string \<rightharpoonup> string" where
  "ex_labels = [''role'' \<mapsto> ''controlplane'']"

definition ex_node1 :: Node where
  "ex_node1 =
     \<lparr>node_Name = ''cp-1'', node_UID = ''uid-1'', node_APIVersion = ''v1'',
       node_Labels = ex_labels,
       node_Addresses = [\<lparr>na_Type = ''Hostname'', na_Address = ''cp-1''\<rparr>,
                         \<lparr>na_Type = ''ExternalIP'', na_Address = ''198.51.100.7''\<rparr>,
                         \<lparr>na_Type = ''InternalIP'', na_Address = ''10.0.0.1''\<rparr>]\<rparr>"

definition ex_node2 :: Node where
  "ex_node2 =
     \<lparr>node_Name = ''cp-2'', node_UID = ''uid-2'', node_APIVersion = ''v1'',
       node_Labels = ex_labels,
       node_Addresses = [\<lparr>na_Type = ''ExternalIP'', na_Address = ''203.0.113.5''\<rparr>]\<rparr>"

definition ex_node3 :: Node where
  "ex_node3 =
     \<lparr>node_Name = ''cp-3'', node_UID = ''uid-3'', node_APIVersion = ''v1'',
       node_Labels = ex_labels,
       node_Addresses = [\<lparr>na_Type = ''Hostname'', na_Address = ''cp-3''\<rparr>]\<rparr>"

definition ex_service :: k8sService where
  "ex_service =
     \<lparr>svc_Name = ''kube-scheduler-prometheus-discovery'', svc_Namespace = ''kube-system'',
       svc_Labels = [''endpoints-operator.fnox.se/enabled'' \<mapsto> ''true''],
       svc_Annotations = [nodeSelectorLabel \<mapsto> ex_selector],
       svc_Ports = [\<lparr>sp_Name = ''http-metrics'', sp_Port = 10251, sp_Protocol = ''TCP''\<rparr>]\<rparr>"

definition ex_cluster :: cluster where
  "ex_cluster =
     \<lparr>cl_services = [ex_service], cl_nodes = [ex_node1, ex_node2, ex_node3],
       cl_endpoints = Map.empty, cl_revision = 0, cl_matches = equality_selector,
       cl_faults = (\<lambda>request. None)\<rparr>"

definition ex_world :: "cluster world" where
  "ex_world = \<lparr>server = ex_cluster, calls = [], logs = []\<rparr>"

text \<open>The record of the service over the two machines that resolve.\<close>

definition ex_record :: Endpoints where
  "ex_record =
     DiscoveryRecord ex_service
       [MachineAddress ex_node1 ''10.0.0.1'', MachineAddress ex_node2 ''203.0.113.5'']"

text \<open>The same cluster after somebody has stored a record for the service.\<close>

definition ex_cluster_stored :: cluster where
  "ex_cluster_stored =
     ex_cluster\<lparr>cl_endpoints :=
                  [(''kube-system'', ''kube-scheduler-prometheus-discovery'') \<mapsto>
                     (DiscoveryRecord ex_service [])\<lparr>eps_Namespace := ''kube-system'',
                        eps_ResourceVersion := ''v41''\<rparr>],
                cl_revision := 41\<rparr>"

definition ex_world_stored :: "cluster world" where
  "ex_world_stored = \<lparr>server = ex_cluster_stored, calls = [], logs = []\<rparr>"

text \<open>
  A second service, listed first, whose selector the server cannot resolve: listing the
  nodes for it fails.
\<close>

definition ex_service_down :: k8sService where
  "ex_service_down =
     \<lparr>svc_Name = ''kube-controller-manager-prometheus-discovery'',
       svc_Namespace = ''kube-system'',
       svc_Labels = [''endpoints-operator.fnox.se/enabled'' \<mapsto> ''true''],
       svc_Annotations = [nodeSelectorLabel \<mapsto> ''role=down''],
       svc_Ports = [\<lparr>sp_Name = ''http-metrics'', sp_Port = 10252, sp_Protocol = ''TCP''\<rparr>]\<rparr>"

definition ex_timeout :: error where
  "ex_timeout = ErrorString ''etcdserver: request timed out''"

definition ex_cluster_two :: cluster where
  "ex_cluster_two =
     ex_cluster\<lparr>cl_services := [ex_service_down, ex_service],
                cl_faults := (\<lambda>request. if request = Call_Nodes_List ''role=down''
                                        then Some ex_timeout else None)\<rparr>"

definition ex_world_two :: "cluster world" where
  "ex_world_two = \<lparr>server = ex_cluster_two, calls = [], logs = []\<rparr>"

text \<open>
  Command lines for the static variant: the scheduler role configured as the README
  shows and the other role left out; a target without a separator; and no flag at all.
\<close>

definition ex_args :: "string \<rightharpoonup> string" where
  "ex_args =
     [''scheduler-service'' \<mapsto> ''kube-system/kube-scheduler-prometheus-discovery'',
      ''scheduler-node-label'' \<mapsto> ex_selector]"

definition ex_args_bad :: "string \<rightharpoonup> string" where
  "ex_args_bad = [''controller-manager-service'' \<mapsto> ''kube-controller-manager'']"

text \<open>
  The static variant started without any flag: both roles are unconfigured, so a cycle
  passes over both and leaves the world as it was. The state of its syncer after two
  cycles, when the stop signal and a tick have both arrived during the second.
\<close>

definition ex_cycle :: "cluster world \<Rightarrow> cluster world result" where
  "ex_cycle = syncAndLog_static mem_client serviceList"

definition ex_syncer_stopped :: "cluster syncer" where
  "ex_syncer_stopped =
     \<lparr>pc = AtSelect, ticker = Some (2 * time_Minute), tick_ready = True, stop_ready = True,
       begun = 2, ended = 2, now = ex_world\<rparr>"

section \<open>The resolver picks by priority and skips what it cannot resolve\<close>

lemma nodeAddress_group_apply:
  "nodeAddress_group m a t =
     (if t = na_Type a then Some ((case m t of None \<Rightarrow> [] | Some xs \<Rightarrow> xs) @ [na_Address a])
      else m t)"
  by (simp add: nodeAddress_group_def)

text \<open>The map that \<^verbatim>\<open>nodeAddress\<close> builds, read at one key.\<close>

lemma foldl_nodeAddress_group:
  "foldl nodeAddress_group m as t =
     (case map na_Address (filter (\<lambda>a. na_Type a = t) as) of
        [] \<Rightarrow> m t
      | x # xs \<Rightarrow> Some ((case m t of None \<Rightarrow> [] | Some ys \<Rightarrow> ys) @ x # xs))"
proof (induction as arbitrary: m)
  case Nil
  show ?case by simp
next
  case (Cons a as)
  have "foldl nodeAddress_group m (a # as) t = foldl nodeAddress_group (nodeAddress_group m a) as t"
    by simp
  also have "\<dots> =
     (case map na_Address (filter (\<lambda>a. na_Type a = t) as) of
        [] \<Rightarrow> nodeAddress_group m a t
      | x # xs \<Rightarrow> Some ((case nodeAddress_group m a t of None \<Rightarrow> [] | Some ys \<Rightarrow> ys) @ x # xs))"
    by (rule Cons.IH)
  also have "\<dots> =
     (case map na_Address (filter (\<lambda>a. na_Type a = t) (a # as)) of
        [] \<Rightarrow> m t
      | x # xs \<Rightarrow> Some ((case m t of None \<Rightarrow> [] | Some ys \<Rightarrow> ys) @ x # xs))"
    by (simp add: nodeAddress_group_apply split: list.splits option.splits)
  finally show ?case .
qed

lemma nodeAddress_map:
  "foldl nodeAddress_group Map.empty (node_Addresses node) t =
     (case addresses_of_type t node of [] \<Rightarrow> None | x # xs \<Rightarrow> Some (x # xs))"
  by (simp add: foldl_nodeAddress_group addresses_of_type_def split: list.splits)

text \<open>
  A key of the map always holds a list that is not empty, so \<^verbatim>\<open>addresses[0]\<close> never
  panics, and the function returns what the specification selects.
\<close>

lemma nodeAddress_select:
  "nodeAddress node =
     (case selectAddress node of
        Some a \<Rightarrow> Return (a, foldl nodeAddress_group Map.empty (node_Addresses node), None)
      | None \<Rightarrow> Return ('''', foldl nodeAddress_group Map.empty (node_Addresses node),
                  Some (ErrorString ''host address unknown'')))"
  by (simp add: nodeAddress_def Let_def nodeAddress_map selectAddress_def split: list.splits)

lemma getNodeAddresses_loop_acc:
  "getNodeAddresses_loop nodes addresses errs =
     Return (addresses @ List.map_filter resolved nodes, errs @ List.map_filter excluded nodes)"
proof (induction nodes arbitrary: addresses errs)
  case Nil
  show ?case by simp
next
  case (Cons n ns)
  show ?case
    by (simp add: Cons.IH nodeAddress_select resolved_def excluded_def MachineAddress_def
        PerNodeError_def split: option.splits)
qed

lemma getNodeAddresses_spec:
  "getNodeAddresses nodes =
     Return (List.map_filter resolved nodes, List.map_filter excluded nodes)"
  by (simp add: getNodeAddresses_def getNodeAddresses_loop_acc)

lemma selectAddress_None: "selectAddress n = None \<longleftrightarrow> lacksAddress n"
  by (simp add: selectAddress_def lacksAddress_def split: list.splits)

lemma excluded_map: "List.map_filter excluded nodes = map PerNodeError (filter lacksAddress nodes)"
  by (induction nodes) (auto simp: excluded_def selectAddress_None[symmetric] split: option.splits)

lemma resolved_length:
  "length (List.map_filter resolved nodes) + length (filter lacksAddress nodes) = length nodes"
  by (induction nodes) (auto simp: resolved_def selectAddress_None[symmetric] split: option.splits)

text \<open>
  C3. The resolver handles the machines one by one and in order, each on its own: a
  machine contributes either its entry or its error, and the machines after it are
  resolved all the same. A machine with an internal address contributes the first of
  them; one with external addresses only, the first of those; one with neither is left
  out of the addresses and contributes an error that carries its name.
\<close>

theorem address_priority:
  "getNodeAddresses nodes =
     Return (List.map_filter resolved nodes, List.map_filter excluded nodes) \<and>
   (\<forall>n ip ips. addresses_of_type NodeInternalIP n = ip # ips \<longrightarrow>
      resolved n = Some (MachineAddress n ip) \<and> excluded n = None) \<and>
   (\<forall>n ip ips. addresses_of_type NodeInternalIP n = [] \<and>
      addresses_of_type NodeExternalIP n = ip # ips \<longrightarrow>
      resolved n = Some (MachineAddress n ip) \<and> excluded n = None) \<and>
   (\<forall>n. addresses_of_type NodeInternalIP n = [] \<and> addresses_of_type NodeExternalIP n = [] \<longrightarrow>
      resolved n = None \<and> excluded n = Some (PerNodeError n))"
  by (simp add: getNodeAddresses_spec resolved_def excluded_def selectAddress_def)

theorem address_priority_witness:
  "addresses_of_type NodeInternalIP ex_node1 = [''10.0.0.1''] \<and>
   addresses_of_type NodeInternalIP ex_node2 = [] \<and>
   addresses_of_type NodeExternalIP ex_node2 = [''203.0.113.5''] \<and>
   addresses_of_type NodeInternalIP ex_node3 = [] \<and>
   addresses_of_type NodeExternalIP ex_node3 = [] \<and>
   getNodeAddresses [ex_node3, ex_node1, ex_node2] =
     Return ([MachineAddress ex_node1 ''10.0.0.1'', MachineAddress ex_node2 ''203.0.113.5''],
             [Wrap (ErrorString ''host address unknown'')
                ''failed to determine hostname for node (cp-3)''])"
proof -
  have i1: "addresses_of_type NodeInternalIP ex_node1 = [''10.0.0.1'']"
    by (simp add: addresses_of_type_def ex_node1_def NodeInternalIP_def)
  have i2: "addresses_of_type NodeInternalIP ex_node2 = []"
    by (simp add: addresses_of_type_def ex_node2_def NodeInternalIP_def)
  have e2: "addresses_of_type NodeExternalIP ex_node2 = [''203.0.113.5'']"
    by (simp add: addresses_of_type_def ex_node2_def NodeExternalIP_def)
  have i3: "addresses_of_type NodeInternalIP ex_node3 = []"
    by (simp add: addresses_of_type_def ex_node3_def NodeInternalIP_def)
  have e3: "addresses_of_type NodeExternalIP ex_node3 = []"
    by (simp add: addresses_of_type_def ex_node3_def NodeExternalIP_def)
  have name3: "PerNodeError ex_node3 =
      Wrap (ErrorString ''host address unknown'') ''failed to determine hostname for node (cp-3)''"
    by (simp add: PerNodeError_def ex_node3_def)
  show ?thesis
    using address_priority [of "[ex_node3, ex_node1, ex_node2]"] i1 i2 e2 i3 e3 name3
    by simp
qed

text \<open>
  C4. The resolver returns as many addresses as machines were listed, less the machines
  that have neither an internal nor an external address, and one error for each of
  those: the errors are the per-node errors of the excluded machines, in order.
\<close>

theorem exclusion_count:
  "\<exists>addresses errs.
     getNodeAddresses nodes = Return (addresses, errs) \<and>
     length addresses = length nodes - length (filter lacksAddress nodes) \<and>
     length errs = length (filter lacksAddress nodes) \<and>
     errs = map PerNodeError (filter lacksAddress nodes)"
proof -
  have "length (List.map_filter resolved nodes) = length nodes - length (filter lacksAddress nodes)"
    using resolved_length [of nodes] by simp
  then show ?thesis
    by (simp add: getNodeAddresses_spec excluded_map)
qed

theorem exclusion_count_witness:
  "filter lacksAddress [ex_node3, ex_node1, ex_node2] = [ex_node3] \<and>
   (\<exists>addresses errs.
      getNodeAddresses [ex_node3, ex_node1, ex_node2] = Return (addresses, errs) \<and>
      length addresses = 2 \<and> errs = [PerNodeError ex_node3])"
proof -
  have l: "filter lacksAddress [ex_node3, ex_node1, ex_node2] = [ex_node3]"
    by (simp add: lacksAddress_def addresses_of_type_def ex_node1_def ex_node2_def ex_node3_def
        NodeInternalIP_def NodeExternalIP_def)
  show ?thesis
    using exclusion_count [of "[ex_node3, ex_node1, ex_node2]"] l by auto
qed

section \<open>The record that is built\<close>

lemma syncNodeEndpoints_ports_append:
  "Subsets eps = s # ss \<Longrightarrow>
   syncNodeEndpoints_ports ports eps =
     Return (eps\<lparr>Subsets := s\<lparr>Ports := Ports s @ map EndpointPort_of ports\<rparr> # ss\<rparr>)"
proof (induction ports arbitrary: eps s)
  case Nil
  then show ?case by simp
next
  case (Cons p ps)
  then show ?case
    by (simp add: update_Subsets0_def EndpointPort_of_def)
qed

lemma syncNodeEndpoints_eps_built:
  "syncNodeEndpoints_eps srv = Return (DiscoveryRecord srv [])"
  by (simp add: syncNodeEndpoints_eps_def syncNodeEndpoints_ports_append DiscoveryRecord_def)

lemma set_addresses_built:
  "update_Subsets0 (\<lambda>s. s\<lparr>Addresses := addresses\<rparr>) (DiscoveryRecord srv xs) =
     Return (DiscoveryRecord srv addresses)"
  by (simp add: update_Subsets0_def DiscoveryRecord_def)

section \<open>One service, without the panics that cannot happen\<close>

lemma foldl_logrus:
  "foldl (\<lambda>w err. logrus l (f err) w) w errs = w\<lparr>logs := logs w @ map (\<lambda>err. (l, f err)) errs\<rparr>"
proof (induction errs arbitrary: w)
  case Nil
  show ?case by simp
next
  case (Cons e es)
  show ?case by (simp add: Cons.IH) (simp add: logrus_def)
qed

lemma syncNodeEndpoints_service_unfold:
  "syncNodeEndpoints_service c srv sel w =
     (case kube_Nodes_List c sel w of
        (Inl err, w1) \<Rightarrow> Return (Some (Wrap err ''listing nodes failed''), w1)
      | (Inr nodes, w1) \<Rightarrow>
          (case CreateOrUpdateEndpoints c (svc_Namespace srv)
                  (DiscoveryRecord srv (List.map_filter resolved nodes))
                  (log_warnings (List.map_filter excluded nodes) w1) of
             (Some err, eps, w3) \<Rightarrow>
               Return (Some (Wrap err ''synchronizing kubelet endpoints object failed''), w3)
           | (None, eps, w3) \<Rightarrow> Return (None, w3)))"
  by (simp add: syncNodeEndpoints_service_def syncNodeEndpoints_eps_built getNodeAddresses_spec
      set_addresses_built foldl_logrus log_warnings_def Let_def
      split: prod.splits sum.splits option.splits)

text \<open>
  What a run for one service sends: the fetch of the service first, then no other fetch
  of a service, and a write last when it succeeds. It always returns.
\<close>

lemma CreateOrUpdateEndpoints_calls:
  "CreateOrUpdateEndpoints c ns eps w = (e, eps', w') \<Longrightarrow>
   \<exists>xs. calls w' = calls w @ xs \<and> filter is_Services_Get xs = [] \<and>
        (e = None \<longrightarrow> is_write (last (calls w')))"
  by (auto simp: CreateOrUpdateEndpoints_def kube_Endpoints_Get_def kube_Endpoints_Create_def
      kube_Endpoints_Update_def Let_def split: sum.splits prod.splits if_splits)

lemma syncNodeEndpoints_service_returns:
  "\<exists>e w1. syncNodeEndpoints_service c srv sel w = Return (e, w1) \<and>
     (\<exists>xs. calls w1 = calls w @ xs \<and> filter is_Services_Get xs = [] \<and>
        (e = None \<longrightarrow> is_write (last (calls w1))))"
proof (cases "kube_Nodes_List c sel w")
  case (Pair r w1)
  have c1: "calls w1 = calls w @ [Call_Nodes_List sel]"
    using Pair by (auto simp: kube_Nodes_List_def split: prod.splits)
  show ?thesis
  proof (cases r)
    case (Inl err)
    then show ?thesis
      using Pair c1 by (simp add: syncNodeEndpoints_service_unfold)
  next
    case (Inr nodes)
    let ?w = "log_warnings (List.map_filter excluded nodes) w1"
    obtain e eps' w3 where a: "CreateOrUpdateEndpoints c (svc_Namespace srv)
        (DiscoveryRecord srv (List.map_filter resolved nodes)) ?w = (e, eps', w3)"
      by (metis prod_cases3)
    from CreateOrUpdateEndpoints_calls [OF a]
    obtain xs where xs: "calls w3 = calls ?w @ xs" "filter is_Services_Get xs = []"
      "e = None \<longrightarrow> is_write (last (calls w3))"
      by blast
    have cw: "calls ?w = calls w @ [Call_Nodes_List sel]"
      using c1 by (simp add: log_warnings_def)
    show ?thesis
      using Pair Inr a xs cw
      by (cases e) (simp_all add: syncNodeEndpoints_service_unfold)
  qed
qed

lemma syncNodeEndpoints_returns:
  "\<exists>e w1. syncNodeEndpoints c ns name sel w = Return (e, w1) \<and>
     (\<exists>xs. calls w1 = calls w @ Call_Services_Get ns name # xs \<and>
        filter is_Services_Get xs = [] \<and>
        (e = None \<longrightarrow> is_write (last (calls w1))))"
proof (cases "kube_Services_Get c ns name (logrus DebugLevel (''starting sync of '' @ name) w)")
  case (Pair r w0)
  have c0: "calls w0 = calls w @ [Call_Services_Get ns name]"
    using Pair by (auto simp: kube_Services_Get_def logrus_def split: prod.splits)
  show ?thesis
  proof (cases r)
    case (Inl err)
    then show ?thesis
      using Pair c0 by (simp add: syncNodeEndpoints_def)
  next
    case (Inr srv)
    from syncNodeEndpoints_service_returns [of c srv sel w0]
    obtain e w1 xs where "syncNodeEndpoints_service c srv sel w0 = Return (e, w1)"
      "calls w1 = calls w0 @ xs" "filter is_Services_Get xs = []"
      "e = None \<longrightarrow> is_write (last (calls w1))"
      by blast
    then show ?thesis
      using Pair Inr c0 by (simp add: syncNodeEndpoints_def)
  qed
qed

lemma syncAndLog_loop_returns:
  "\<exists>w' xs. syncAndLog_loop c items w = Return w' \<and> calls w' = calls w @ xs \<and>
     filter is_Services_Get xs =
       map (\<lambda>svc. Call_Services_Get (svc_Namespace svc) (svc_Name svc)) (filter annotated items)"
proof (induction items arbitrary: w)
  case Nil
  show ?case by simp
next
  case (Cons svc rest)
  show ?case
  proof (cases "svc_Annotations svc nodeSelectorLabel")
    case None
    then have no: "\<not> annotated svc"
      by (simp add: annotated_def)
    let ?w = "logrus ErrorLevel
          (''missing '' @ nodeSelectorLabel @ '' label on service '' @ svc_Name svc) w"
    have cw: "calls ?w = calls w"
      by (simp add: logrus_def)
    have step: "syncAndLog_loop c (svc # rest) w = syncAndLog_loop c rest ?w"
      using None by simp
    show ?thesis
      using Cons.IH [of ?w] no unfolding step cw by simp
  next
    case (Some sel)
    from syncNodeEndpoints_returns [of c "svc_Namespace svc" "svc_Name svc" sel w]
    obtain e w1 xs where s: "syncNodeEndpoints c (svc_Namespace svc) (svc_Name svc) sel w = Return (e, w1)"
      "calls w1 = calls w @ Call_Services_Get (svc_Namespace svc) (svc_Name svc) # xs"
      "filter is_Services_Get xs = []"
      by blast
    let ?w = "case e of None \<Rightarrow> w1 | Some err \<Rightarrow> logrus ErrorLevel (Error err) w1"
    have cw: "calls ?w = calls w1"
      by (simp add: logrus_def split: option.splits)
    from Cons.IH [of ?w] obtain w' ys where r: "syncAndLog_loop c rest ?w = Return w'"
      "calls w' = calls ?w @ ys"
      "filter is_Services_Get ys =
         map (\<lambda>svc. Call_Services_Get (svc_Namespace svc) (svc_Name svc)) (filter annotated rest)"
      by blast
    have step: "syncAndLog_loop c (svc # rest) w = syncAndLog_loop c rest ?w"
      using Some s(1) by (simp split: option.splits)
    have yes: "annotated svc"
      using Some by (simp add: annotated_def)
    show ?thesis
      using r s cw yes unfolding step by simp
  qed
qed

section \<open>Create or update: the three ways it can go\<close>

lemma CreateOrUpdateEndpoints_not_found:
  "Endpoints_Get c ns (eps_Name eps) (server w) = (Inl err, s1) \<Longrightarrow> IsNotFound err \<Longrightarrow>
   Endpoints_Create c ns eps s1 = (r, s2) \<Longrightarrow>
   CreateOrUpdateEndpoints c ns eps w =
     ((case r of Inl e \<Rightarrow> Some (Wrap e ''creating kubelet endpoints object failed'')
              | Inr stored \<Rightarrow> None),
      eps,
      w\<lparr>server := s2,
        calls := calls w @ [Call_Endpoints_Get ns (eps_Name eps), Call_Endpoints_Create ns eps]\<rparr>)"
  by (simp add: CreateOrUpdateEndpoints_def kube_Endpoints_Get_def kube_Endpoints_Create_def
      split: sum.splits)

lemma CreateOrUpdateEndpoints_found:
  "Endpoints_Get c ns (eps_Name eps) (server w) = (Inr endpoints, s1) \<Longrightarrow>
   Endpoints_Update c ns (eps\<lparr>eps_ResourceVersion := eps_ResourceVersion endpoints\<rparr>) s1 = (r, s2) \<Longrightarrow>
   CreateOrUpdateEndpoints c ns eps w =
     ((case r of Inl e \<Rightarrow> Some (Wrap e ''updating kubelet endpoints object failed'')
              | Inr stored \<Rightarrow> None),
      eps\<lparr>eps_ResourceVersion := eps_ResourceVersion endpoints\<rparr>,
      w\<lparr>server := s2,
        calls := calls w @ [Call_Endpoints_Get ns (eps_Name eps),
          Call_Endpoints_Update ns (eps\<lparr>eps_ResourceVersion := eps_ResourceVersion endpoints\<rparr>)]\<rparr>)"
  by (simp add: CreateOrUpdateEndpoints_def kube_Endpoints_Get_def kube_Endpoints_Update_def Let_def
      split: sum.splits)

lemma CreateOrUpdateEndpoints_fetch_failed:
  "Endpoints_Get c ns (eps_Name eps) (server w) = (Inl err, s1) \<Longrightarrow> \<not> IsNotFound err \<Longrightarrow>
   CreateOrUpdateEndpoints c ns eps w =
     (Some (Wrap err ''retrieving existing kubelet endpoints object failed''), eps,
      w\<lparr>server := s1, calls := calls w @ [Call_Endpoints_Get ns (eps_Name eps)]\<rparr>)"
  by (simp add: CreateOrUpdateEndpoints_def kube_Endpoints_Get_def)

section \<open>The program on the server in memory\<close>

lemma mem_store_server:
  "mem_store ns eps s =
     (Inr (eps\<lparr>eps_Namespace := ns, eps_ResourceVersion := store_token (Suc (cl_revision s))\<rparr>),
      s\<lparr>cl_endpoints := (cl_endpoints s)((ns, eps_Name eps) \<mapsto>
            eps\<lparr>eps_Namespace := ns, eps_ResourceVersion := store_token (Suc (cl_revision s))\<rparr>),
        cl_revision := Suc (cl_revision s)\<rparr>)"
  by (simp add: mem_store_def Let_def)

lemma mem_apply_absent:
  assumes "cl_faults (server w) (Call_Endpoints_Get ns (eps_Name eps)) = None"
    and "cl_faults (server w) (Call_Endpoints_Create ns eps) = None"
    and "cl_endpoints (server w) (ns, eps_Name eps) = None"
  shows "CreateOrUpdateEndpoints mem_client ns eps w =
     (None, eps,
      w\<lparr>server := snd (mem_store ns eps (server w)),
        calls := calls w @ [Call_Endpoints_Get ns (eps_Name eps), Call_Endpoints_Create ns eps]\<rparr>)"
proof -
  have g: "Endpoints_Get mem_client ns (eps_Name eps) (server w) =
      (Inl (mem_NotFound ''endpoints'' (eps_Name eps)), server w)"
    using assms by (simp add: mem_client_def mem_Endpoints_Get_def)
  have n: "IsNotFound (mem_NotFound ''endpoints'' (eps_Name eps))"
    by (simp add: mem_NotFound_def)
  have c: "Endpoints_Create mem_client ns eps (server w) =
      (fst (mem_store ns eps (server w)), snd (mem_store ns eps (server w)))"
    using assms by (simp add: mem_client_def mem_Endpoints_Create_def)
  show ?thesis
    using CreateOrUpdateEndpoints_not_found [OF g n c]
    by (simp add: mem_store_server)
qed

lemma mem_apply_present:
  assumes "cl_faults (server w) (Call_Endpoints_Get ns (eps_Name eps)) = None"
    and "cl_faults (server w)
           (Call_Endpoints_Update ns (eps\<lparr>eps_ResourceVersion := eps_ResourceVersion old\<rparr>)) = None"
    and "cl_endpoints (server w) (ns, eps_Name eps) = Some old"
  shows "CreateOrUpdateEndpoints mem_client ns eps w =
     (None, eps\<lparr>eps_ResourceVersion := eps_ResourceVersion old\<rparr>,
      w\<lparr>server := snd (mem_store ns (eps\<lparr>eps_ResourceVersion := eps_ResourceVersion old\<rparr>)
                         (server w)),
        calls := calls w @
          [Call_Endpoints_Get ns (eps_Name eps),
           Call_Endpoints_Update ns (eps\<lparr>eps_ResourceVersion := eps_ResourceVersion old\<rparr>)]\<rparr>)"
proof -
  let ?e = "eps\<lparr>eps_ResourceVersion := eps_ResourceVersion old\<rparr>"
  have g: "Endpoints_Get mem_client ns (eps_Name eps) (server w) = (Inr old, server w)"
    using assms by (simp add: mem_client_def mem_Endpoints_Get_def)
  have u: "Endpoints_Update mem_client ns ?e (server w) =
      (fst (mem_store ns ?e (server w)), snd (mem_store ns ?e (server w)))"
    using assms by (simp add: mem_client_def mem_Endpoints_Update_def)
  show ?thesis
    using CreateOrUpdateEndpoints_found [OF g u]
    by (simp add: mem_store_server)
qed

lemma mem_sync:
  assumes "cl_faults (server w) (Call_Services_Get ns name) = None"
    and "cl_faults (server w) (Call_Nodes_List sel) = None"
    and "find (\<lambda>svc. svc_Namespace svc = ns \<and> svc_Name svc = name) (cl_services (server w)) = Some srv"
  shows "syncNodeEndpoints mem_client ns name sel w =
     (case CreateOrUpdateEndpoints mem_client ns
             (DiscoveryRecord srv (mem_addresses (server w) sel)) (mem_prepared w ns name sel) of
        (Some err, eps, w3) \<Rightarrow>
          Return (Some (Wrap err ''synchronizing kubelet endpoints object failed''), w3)
      | (None, eps, w3) \<Rightarrow> Return (None, w3))"
proof -
  from assms(3) have names: "svc_Namespace srv = ns" "svc_Name srv = name"
    by (auto simp: find_Some_iff)
  show ?thesis
    using assms names
    by (simp add: syncNodeEndpoints_def kube_Services_Get_def mem_client_def mem_Services_Get_def
        logrus_def syncNodeEndpoints_service_unfold kube_Nodes_List_def mem_Nodes_List_def
        mem_addresses_def mem_prepared_def log_warnings_def)
qed

lemma mem_apply:
  assumes "cl_faults (server w) (Call_Endpoints_Get ns (eps_Name eps)) = None"
    and "cl_faults (server w) (mem_write (server w) ns eps) = None"
  shows "CreateOrUpdateEndpoints mem_client ns eps w =
     (None, mem_written (server w) ns eps,
      w\<lparr>server := snd (mem_store ns (mem_written (server w) ns eps) (server w)),
        calls := calls w @ [Call_Endpoints_Get ns (eps_Name eps), mem_write (server w) ns eps]\<rparr>)"
proof (cases "cl_endpoints (server w) (ns, eps_Name eps)")
  case None
  then show ?thesis
    using mem_apply_absent [OF assms(1) _ None] assms(2)
    by (simp add: mem_written_def mem_write_def)
next
  case (Some old)
  then show ?thesis
    using mem_apply_present [OF assms(1) _ Some] assms(2)
    by (simp add: mem_written_def mem_write_def)
qed

lemma server_mem_prepared: "server (mem_prepared w ns name sel) = server w"
  by (simp add: mem_prepared_def log_warnings_def)

lemma calls_mem_prepared:
  "calls (mem_prepared w ns name sel) = calls w @ [Call_Services_Get ns name, Call_Nodes_List sel]"
  by (simp add: mem_prepared_def log_warnings_def)

lemma mem_sync_step:
  assumes f_get: "cl_faults (server w) (Call_Services_Get ns name) = None"
    and f_list: "cl_faults (server w) (Call_Nodes_List sel) = None"
    and f_fetch: "cl_faults (server w) (Call_Endpoints_Get ns name) = None"
    and f_write: "cl_faults (server w)
        (mem_write (server w) ns (DiscoveryRecord srv (mem_addresses (server w) sel))) = None"
    and found: "find (\<lambda>svc. svc_Namespace svc = ns \<and> svc_Name svc = name)
                  (cl_services (server w)) = Some srv"
  shows "\<exists>w1.
     syncNodeEndpoints mem_client ns name sel w = Return (None, w1) \<and>
     server w1 =
       snd (mem_store ns
              (mem_written (server w) ns (DiscoveryRecord srv (mem_addresses (server w) sel)))
              (server w)) \<and>
     calls w1 =
       calls w @
         [Call_Services_Get ns name, Call_Nodes_List sel, Call_Endpoints_Get ns name,
          mem_write (server w) ns (DiscoveryRecord srv (mem_addresses (server w) sel))] \<and>
     filter is_write (calls w1) =
       filter is_write (calls w) @
         [mem_write (server w) ns (DiscoveryRecord srv (mem_addresses (server w) sel))]"
proof -
  let ?rec = "DiscoveryRecord srv (mem_addresses (server w) sel)"
  let ?p = "mem_prepared w ns name sel"
  have name: "eps_Name ?rec = name"
    using found by (auto simp: find_Some_iff DiscoveryRecord_def)
  have f: "cl_faults (server ?p) (Call_Endpoints_Get ns (eps_Name ?rec)) = None"
    using f_fetch by (simp add: server_mem_prepared name)
  have g: "cl_faults (server ?p) (mem_write (server ?p) ns ?rec) = None"
    using f_write by (simp add: server_mem_prepared)
  have w: "is_write (mem_write (server w) ns ?rec)"
    by (simp add: mem_write_def split: option.splits)
  show ?thesis
    using w name
    by (simp add: mem_sync [OF f_get f_list found] mem_apply [OF f g] server_mem_prepared
        calls_mem_prepared)
qed

lemma mem_store_frame:
  "cl_faults (snd (mem_store ns eps s)) = cl_faults s \<and>
   cl_services (snd (mem_store ns eps s)) = cl_services s \<and>
   mem_addresses (snd (mem_store ns eps s)) sel = mem_addresses s sel \<and>
   cl_endpoints (snd (mem_store ns eps s)) (ns, eps_Name eps) =
     Some (eps\<lparr>eps_Namespace := ns, eps_ResourceVersion := store_token (Suc (cl_revision s))\<rparr>)"
  by (simp add: mem_store_server mem_addresses_def)

lemma eps_Name_mem_written: "eps_Name (mem_written s ns eps) = eps_Name eps"
  by (simp add: mem_written_def split: option.splits)

lemma Subsets_mem_written: "Subsets (mem_written s ns eps) = Subsets eps"
  by (simp add: mem_written_def split: option.splits)

section \<open>The record that is applied\<close>

text \<open>
  C1. For a service with any list of declared ports and for any list of resolved
  addresses, the empty list too, the program builds a record (no panic, no error) that
  has exactly one subset; the ports of the subset are the declared ports, one for one
  and in order, with the same names and numbers; its addresses are the resolved
  addresses. The record is named and labelled after the service. It is this record
  that is applied once the nodes are listed, whatever the resolver returned: no
  addresses at all is not a reason to stop.
\<close>

theorem record_shape:
  "\<exists>eps0 eps subset.
     syncNodeEndpoints_eps srv = Return eps0 \<and>
     update_Subsets0 (\<lambda>s. s\<lparr>Addresses := addresses\<rparr>) eps0 = Return eps \<and>
     Subsets eps = [subset] \<and>
     Ports subset = map EndpointPort_of (svc_Ports srv) \<and>
     length (Ports subset) = length (svc_Ports srv) \<and>
     map ep_Name (Ports subset) = map sp_Name (svc_Ports srv) \<and>
     map ep_Port (Ports subset) = map sp_Port (svc_Ports srv) \<and>
     Addresses subset = addresses \<and>
     length (Addresses subset) = length addresses \<and>
     eps_Name eps = svc_Name srv \<and> eps_Labels eps = svc_Labels srv \<and>
     (\<forall>c sel w nodes w1 errs.
        kube_Nodes_List c sel w = (Inr nodes, w1) \<and>
        getNodeAddresses nodes = Return (addresses, errs) \<longrightarrow>
        syncNodeEndpoints_service c srv sel w =
          (case CreateOrUpdateEndpoints c (svc_Namespace srv) eps (log_warnings errs w1) of
             (Some err, e, w3) \<Rightarrow>
               Return (Some (Wrap err ''synchronizing kubelet endpoints object failed''), w3)
           | (None, e, w3) \<Rightarrow> Return (None, w3)))"
proof (intro exI conjI allI impI)
  show "syncNodeEndpoints_eps srv = Return (DiscoveryRecord srv [])"
    by (rule syncNodeEndpoints_eps_built)
  show "update_Subsets0 (\<lambda>s. s\<lparr>Addresses := addresses\<rparr>) (DiscoveryRecord srv []) =
      Return (DiscoveryRecord srv addresses)"
    by (rule set_addresses_built)
  show "Subsets (DiscoveryRecord srv addresses) =
      [\<lparr>Addresses = addresses, Ports = map EndpointPort_of (svc_Ports srv)\<rparr>]"
    by (simp add: DiscoveryRecord_def)
  show "Ports \<lparr>Addresses = addresses, Ports = map EndpointPort_of (svc_Ports srv)\<rparr> =
      map EndpointPort_of (svc_Ports srv)"
    by simp
  show "length (Ports \<lparr>Addresses = addresses, Ports = map EndpointPort_of (svc_Ports srv)\<rparr>) =
      length (svc_Ports srv)"
    by simp
  show "map ep_Name (Ports \<lparr>Addresses = addresses, Ports = map EndpointPort_of (svc_Ports srv)\<rparr>) =
      map sp_Name (svc_Ports srv)"
    by (simp add: EndpointPort_of_def comp_def)
  show "map ep_Port (Ports \<lparr>Addresses = addresses, Ports = map EndpointPort_of (svc_Ports srv)\<rparr>) =
      map sp_Port (svc_Ports srv)"
    by (simp add: EndpointPort_of_def comp_def)
  show "Addresses \<lparr>Addresses = addresses, Ports = map EndpointPort_of (svc_Ports srv)\<rparr> = addresses"
    by simp
  show "length (Addresses \<lparr>Addresses = addresses, Ports = map EndpointPort_of (svc_Ports srv)\<rparr>) =
      length addresses"
    by simp
  show "eps_Name (DiscoveryRecord srv addresses) = svc_Name srv"
    by (simp add: DiscoveryRecord_def)
  show "eps_Labels (DiscoveryRecord srv addresses) = svc_Labels srv"
    by (simp add: DiscoveryRecord_def)
next
  fix c :: "'a CoreV1" and sel w nodes w1 errs
  assume a: "kube_Nodes_List c sel w = (Inr nodes, w1) \<and>
        getNodeAddresses nodes = Return (addresses, errs)"
  then have l: "kube_Nodes_List c sel w = (Inr nodes, w1)"
    and r: "addresses = List.map_filter resolved nodes"
    and e: "errs = List.map_filter excluded nodes"
    by (simp_all add: getNodeAddresses_spec)
  show "syncNodeEndpoints_service c srv sel w =
          (case CreateOrUpdateEndpoints c (svc_Namespace srv) (DiscoveryRecord srv addresses)
                  (log_warnings errs w1) of
             (Some err, e, w3) \<Rightarrow>
               Return (Some (Wrap err ''synchronizing kubelet endpoints object failed''), w3)
           | (None, e, w3) \<Rightarrow> Return (None, w3))"
    unfolding r e by (simp add: syncNodeEndpoints_service_unfold l)
qed

theorem record_shape_witness:
  "kube_Nodes_List mem_client ''role=none'' ex_world =
     (Inr [], ex_world\<lparr>calls := [Call_Nodes_List ''role=none'']\<rparr>) \<and>
   getNodeAddresses [] = Return ([], []) \<and>
   (\<exists>eps.
      Subsets eps =
        [\<lparr>Addresses = [],
          Ports = [\<lparr>ep_Name = ''http-metrics'', ep_Port = 10251, ep_Protocol = ''''\<rparr>]\<rparr>] \<and>
      syncNodeEndpoints_service mem_client ex_service ''role=none'' ex_world =
        Return (None,
          ex_world\<lparr>server := snd (mem_store ''kube-system'' eps ex_cluster),
            calls := [Call_Nodes_List ''role=none'',
                      Call_Endpoints_Get ''kube-system'' ''kube-scheduler-prometheus-discovery'',
                      Call_Endpoints_Create ''kube-system'' eps]\<rparr>))"
proof -
  let ?w1 = "ex_world\<lparr>calls := [Call_Nodes_List ''role=none'']\<rparr>"
  have l: "kube_Nodes_List mem_client ''role=none'' ex_world = (Inr [], ?w1)"
    by (simp add: kube_Nodes_List_def mem_client_def mem_Nodes_List_def ex_world_def
        ex_cluster_def equality_selector_def ex_node1_def ex_node2_def ex_node3_def ex_labels_def)
  have g: "getNodeAddresses [] = Return ([], [])"
    by (simp add: getNodeAddresses_def)
  from record_shape [of ex_service "[]"]
  obtain eps subset where
    sub: "Subsets eps = [subset]"
    and ports: "Ports subset = map EndpointPort_of (svc_Ports ex_service)"
    and addrs: "Addresses subset = []"
    and name: "eps_Name eps = svc_Name ex_service"
    and sync: "\<forall>(c :: cluster CoreV1) sel w nodes w1 errs.
        kube_Nodes_List c sel w = (Inr nodes, w1) \<and> getNodeAddresses nodes = Return ([], errs) \<longrightarrow>
        syncNodeEndpoints_service c ex_service sel w =
          (case CreateOrUpdateEndpoints c (svc_Namespace ex_service) eps (log_warnings errs w1) of
             (Some err, e, w3) \<Rightarrow>
               Return (Some (Wrap err ''synchronizing kubelet endpoints object failed''), w3)
           | (None, e, w3) \<Rightarrow> Return (None, w3))"
    by (elim exE conjE)
  have shape: "Subsets eps =
      [\<lparr>Addresses = [],
        Ports = [\<lparr>ep_Name = ''http-metrics'', ep_Port = 10251, ep_Protocol = ''''\<rparr>]\<rparr>]"
  proof -
    have "subset = \<lparr>Addresses = Addresses subset, Ports = Ports subset\<rparr>"
      by simp
    then show ?thesis
      unfolding sub ports addrs by (simp add: ex_service_def EndpointPort_of_def)
  qed
  have n: "eps_Name eps = ''kube-scheduler-prometheus-discovery''"
    using name by (simp add: ex_service_def)
  have w: "log_warnings [] ?w1 = ?w1"
    by (simp add: log_warnings_def)
  have f1: "cl_faults (server ?w1) (Call_Endpoints_Get ''kube-system'' (eps_Name eps)) = None"
    by (simp add: ex_world_def ex_cluster_def)
  have f2: "cl_faults (server ?w1) (Call_Endpoints_Create ''kube-system'' eps) = None"
    by (simp add: ex_world_def ex_cluster_def)
  have absent: "cl_endpoints (server ?w1) (''kube-system'', eps_Name eps) = None"
    by (simp add: ex_world_def ex_cluster_def)
  have ap: "CreateOrUpdateEndpoints mem_client ''kube-system'' eps ?w1 =
      (None, eps,
       ex_world\<lparr>server := snd (mem_store ''kube-system'' eps ex_cluster),
         calls := [Call_Nodes_List ''role=none'',
                   Call_Endpoints_Get ''kube-system'' ''kube-scheduler-prometheus-discovery'',
                   Call_Endpoints_Create ''kube-system'' eps]\<rparr>)"
    using mem_apply_absent [OF f1 f2 absent] by (simp add: n) (simp add: ex_world_def)
  have ns: "svc_Namespace ex_service = ''kube-system''"
    by (simp add: ex_service_def)
  from sync [rule_format, of mem_client "''role=none''" ex_world "[]" ?w1 "[]"] l g
  have "syncNodeEndpoints_service mem_client ex_service ''role=none'' ex_world =
        Return (None,
          ex_world\<lparr>server := snd (mem_store ''kube-system'' eps ex_cluster),
            calls := [Call_Nodes_List ''role=none'',
                      Call_Endpoints_Get ''kube-system'' ''kube-scheduler-prometheus-discovery'',
                      Call_Endpoints_Create ''kube-system'' eps]\<rparr>)"
    by (simp add: ns w ap)
  with shape have "\<exists>eps.
      Subsets eps =
        [\<lparr>Addresses = [],
          Ports = [\<lparr>ep_Name = ''http-metrics'', ep_Port = 10251, ep_Protocol = ''''\<rparr>]\<rparr>] \<and>
      syncNodeEndpoints_service mem_client ex_service ''role=none'' ex_world =
        Return (None,
          ex_world\<lparr>server := snd (mem_store ''kube-system'' eps ex_cluster),
            calls := [Call_Nodes_List ''role=none'',
                      Call_Endpoints_Get ''kube-system'' ''kube-scheduler-prometheus-discovery'',
                      Call_Endpoints_Create ''kube-system'' eps]\<rparr>)"
    by (intro exI [of _ eps] conjI)
  with l g show ?thesis
    by (intro conjI)
qed

section \<open>Create or update: what the claims say\<close>

text \<open>
  C2. Whatever the client does: when the fetch fails with a not-found error, the function
  sends one create, carrying the record as it was handed in (the token of that record
  is not read from anywhere; the records the program builds carry none, which is the
  last part of the statement), and a failure of the create comes back wrapped; when
  the fetch succeeds, it sends one update, carrying the record with the token of the
  fetched record put in, and a failure of the update comes back wrapped; when the
  fetch fails in any other way, it sends nothing more and the failure comes back
  wrapped. Nothing is logged in any of the three.
\<close>

theorem create_or_update_branches:
  "(Endpoints_Get c ns (eps_Name eps) (server w) = (Inl err, s1) \<and> IsNotFound err \<and>
    Endpoints_Create c ns eps s1 = (r, s2) \<longrightarrow>
      CreateOrUpdateEndpoints c ns eps w =
        ((case r of Inl e \<Rightarrow> Some (Wrap e ''creating kubelet endpoints object failed'')
                 | Inr stored \<Rightarrow> None),
         eps,
         w\<lparr>server := s2,
           calls := calls w @
             [Call_Endpoints_Get ns (eps_Name eps), Call_Endpoints_Create ns eps]\<rparr>)) \<and>
   (Endpoints_Get c ns (eps_Name eps) (server w) = (Inr endpoints, s1) \<and>
    Endpoints_Update c ns (eps\<lparr>eps_ResourceVersion := eps_ResourceVersion endpoints\<rparr>) s1 =
      (r, s2) \<longrightarrow>
      CreateOrUpdateEndpoints c ns eps w =
        ((case r of Inl e \<Rightarrow> Some (Wrap e ''updating kubelet endpoints object failed'')
                 | Inr stored \<Rightarrow> None),
         eps\<lparr>eps_ResourceVersion := eps_ResourceVersion endpoints\<rparr>,
         w\<lparr>server := s2,
           calls := calls w @
             [Call_Endpoints_Get ns (eps_Name eps),
              Call_Endpoints_Update ns
                (eps\<lparr>eps_ResourceVersion := eps_ResourceVersion endpoints\<rparr>)]\<rparr>)) \<and>
   (Endpoints_Get c ns (eps_Name eps) (server w) = (Inl err, s1) \<and> \<not> IsNotFound err \<longrightarrow>
      CreateOrUpdateEndpoints c ns eps w =
        (Some (Wrap err ''retrieving existing kubelet endpoints object failed''), eps,
         w\<lparr>server := s1, calls := calls w @ [Call_Endpoints_Get ns (eps_Name eps)]\<rparr>)) \<and>
   (\<forall>srv addresses eps0 eps1.
      syncNodeEndpoints_eps srv = Return eps0 \<and>
      update_Subsets0 (\<lambda>s. s\<lparr>Addresses := addresses\<rparr>) eps0 = Return eps1 \<longrightarrow>
      eps_ResourceVersion eps1 = '''')"
proof -
  have built: "eps_ResourceVersion eps1 = ''''"
    if "syncNodeEndpoints_eps srv = Return eps0"
      and "update_Subsets0 (\<lambda>s. s\<lparr>Addresses := addresses\<rparr>) eps0 = Return eps1"
    for srv addresses eps0 eps1
  proof -
    from that(1) have "eps0 = DiscoveryRecord srv []"
      by (simp add: syncNodeEndpoints_eps_built)
    with that(2) have "eps1 = DiscoveryRecord srv addresses"
      by (simp add: set_addresses_built)
    then show ?thesis
      by (simp add: DiscoveryRecord_def)
  qed
  show ?thesis
    using CreateOrUpdateEndpoints_not_found [of c ns eps w err s1 r s2]
      CreateOrUpdateEndpoints_found [of c ns eps w endpoints s1 r s2]
      CreateOrUpdateEndpoints_fetch_failed [of c ns eps w err s1] built
    by blast
qed

lemma ex_record_name: "eps_Name ex_record = ''kube-scheduler-prometheus-discovery''"
  by (simp add: ex_record_def DiscoveryRecord_def ex_service_def)

theorem create_or_update_branches_witness:
  "IsNotFound (mem_NotFound ''endpoints'' (eps_Name ex_record)) \<and>
   CreateOrUpdateEndpoints mem_client ''kube-system'' ex_record ex_world =
     (None, ex_record,
      ex_world\<lparr>server := snd (mem_store ''kube-system'' ex_record ex_cluster),
        calls := [Call_Endpoints_Get ''kube-system'' ''kube-scheduler-prometheus-discovery'',
                  Call_Endpoints_Create ''kube-system'' ex_record]\<rparr>) \<and>
   CreateOrUpdateEndpoints mem_client ''kube-system'' ex_record ex_world_stored =
     (None, ex_record\<lparr>eps_ResourceVersion := ''v41''\<rparr>,
      ex_world_stored\<lparr>server := snd (mem_store ''kube-system''
                                      (ex_record\<lparr>eps_ResourceVersion := ''v41''\<rparr>) ex_cluster_stored),
        calls := [Call_Endpoints_Get ''kube-system'' ''kube-scheduler-prometheus-discovery'',
                  Call_Endpoints_Update ''kube-system''
                    (ex_record\<lparr>eps_ResourceVersion := ''v41''\<rparr>)]\<rparr>) \<and>
   CreateOrUpdateEndpoints mem_client ''kube-system'' ex_record
     (ex_world\<lparr>server := ex_cluster\<lparr>cl_faults := (\<lambda>request. Some (ErrorString ''connection refused''))\<rparr>\<rparr>) =
     (Some (Wrap (ErrorString ''connection refused'')
              ''retrieving existing kubelet endpoints object failed''),
      ex_record,
      ex_world\<lparr>server := ex_cluster\<lparr>cl_faults := (\<lambda>request. Some (ErrorString ''connection refused''))\<rparr>,
        calls := [Call_Endpoints_Get ''kube-system'' ''kube-scheduler-prometheus-discovery'']\<rparr>)"
proof -
  let ?ns = "''kube-system''"
  let ?down = "ex_cluster\<lparr>cl_faults := (\<lambda>request. Some (ErrorString ''connection refused''))\<rparr>"
  have n: "IsNotFound (mem_NotFound ''endpoints'' (eps_Name ex_record))"
    by (simp add: mem_NotFound_def)
  have g1: "Endpoints_Get mem_client ?ns (eps_Name ex_record) (server ex_world) =
      (Inl (mem_NotFound ''endpoints'' (eps_Name ex_record)), ex_cluster)"
    by (simp add: mem_client_def mem_Endpoints_Get_def ex_world_def ex_cluster_def)
  have c1: "Endpoints_Create mem_client ?ns ex_record ex_cluster =
      (fst (mem_store ?ns ex_record ex_cluster), snd (mem_store ?ns ex_record ex_cluster))"
    by (simp add: mem_client_def mem_Endpoints_Create_def ex_cluster_def)
  have r1: "fst (mem_store ?ns ex_record ex_cluster) =
      Inr (ex_record\<lparr>eps_Namespace := ?ns, eps_ResourceVersion := ''vi''\<rparr>)"
    by (simp add: mem_store_server ex_cluster_def store_token_def)
  have g2: "Endpoints_Get mem_client ?ns (eps_Name ex_record) (server ex_world_stored) =
      (Inr ((DiscoveryRecord ex_service [])\<lparr>eps_Namespace := ?ns, eps_ResourceVersion := ''v41''\<rparr>),
       ex_cluster_stored)"
    by (simp add: mem_client_def mem_Endpoints_Get_def ex_world_stored_def ex_cluster_stored_def
        ex_cluster_def ex_record_name)
  have u2: "Endpoints_Update mem_client ?ns
        (ex_record\<lparr>eps_ResourceVersion := eps_ResourceVersion
           ((DiscoveryRecord ex_service [])\<lparr>eps_Namespace := ?ns, eps_ResourceVersion := ''v41''\<rparr>)\<rparr>)
        ex_cluster_stored =
      (fst (mem_store ?ns (ex_record\<lparr>eps_ResourceVersion := ''v41''\<rparr>) ex_cluster_stored),
       snd (mem_store ?ns (ex_record\<lparr>eps_ResourceVersion := ''v41''\<rparr>) ex_cluster_stored))"
    by (simp add: mem_client_def mem_Endpoints_Update_def ex_cluster_stored_def
        ex_cluster_def ex_record_name)
  have r2: "\<exists>x. fst (mem_store ?ns (ex_record\<lparr>eps_ResourceVersion := ''v41''\<rparr>) ex_cluster_stored) = Inr x"
    by (simp add: mem_store_server)
  have g3: "Endpoints_Get mem_client ?ns (eps_Name ex_record)
        (server (ex_world\<lparr>server := ?down\<rparr>)) = (Inl (ErrorString ''connection refused''), ?down)"
    by (simp add: mem_client_def mem_Endpoints_Get_def)
  have n3: "\<not> IsNotFound (ErrorString ''connection refused'')"
    by simp
  from create_or_update_branches
         [where c = mem_client and ns = ?ns and eps = ex_record and w = ex_world
            and err = "mem_NotFound ''endpoints'' (eps_Name ex_record)" and ?s1.0 = ex_cluster
            and r = "fst (mem_store ?ns ex_record ex_cluster)"
            and ?s2.0 = "snd (mem_store ?ns ex_record ex_cluster)"]
    g1 n c1 r1
  have one: "CreateOrUpdateEndpoints mem_client ?ns ex_record ex_world =
     (None, ex_record,
      ex_world\<lparr>server := snd (mem_store ?ns ex_record ex_cluster),
        calls := [Call_Endpoints_Get ?ns ''kube-scheduler-prometheus-discovery'',
                  Call_Endpoints_Create ?ns ex_record]\<rparr>)"
    by (simp add: ex_record_name) (simp add: ex_world_def)
  from create_or_update_branches
         [where c = mem_client and ns = ?ns and eps = ex_record and w = ex_world_stored
            and endpoints = "(DiscoveryRecord ex_service [])\<lparr>eps_Namespace := ?ns,
                eps_ResourceVersion := ''v41''\<rparr>"
            and ?s1.0 = ex_cluster_stored
            and r = "fst (mem_store ?ns (ex_record\<lparr>eps_ResourceVersion := ''v41''\<rparr>) ex_cluster_stored)"
            and ?s2.0 = "snd (mem_store ?ns (ex_record\<lparr>eps_ResourceVersion := ''v41''\<rparr>) ex_cluster_stored)"]
    g2 u2 r2
  have two: "CreateOrUpdateEndpoints mem_client ?ns ex_record ex_world_stored =
     (None, ex_record\<lparr>eps_ResourceVersion := ''v41''\<rparr>,
      ex_world_stored\<lparr>server := snd (mem_store ?ns
                                      (ex_record\<lparr>eps_ResourceVersion := ''v41''\<rparr>) ex_cluster_stored),
        calls := [Call_Endpoints_Get ?ns ''kube-scheduler-prometheus-discovery'',
                  Call_Endpoints_Update ?ns (ex_record\<lparr>eps_ResourceVersion := ''v41''\<rparr>)]\<rparr>)"
    by (auto simp: ex_record_name) (simp add: ex_world_stored_def)
  from create_or_update_branches
         [where c = mem_client and ns = ?ns and eps = ex_record
            and w = "ex_world\<lparr>server := ?down\<rparr>"
            and err = "ErrorString ''connection refused''" and ?s1.0 = ?down]
    g3 n3
  have three: "CreateOrUpdateEndpoints mem_client ?ns ex_record (ex_world\<lparr>server := ?down\<rparr>) =
     (Some (Wrap (ErrorString ''connection refused'')
              ''retrieving existing kubelet endpoints object failed''),
      ex_record,
      ex_world\<lparr>server := ?down,
        calls := [Call_Endpoints_Get ?ns ''kube-scheduler-prometheus-discovery'']\<rparr>)"
    by (simp add: ex_record_name) (simp add: ex_world_def)
  from n one two three show ?thesis by simp
qed

text \<open>
  C10. The function writes through its argument in the update branch only, and there
  only the version token: the record \<^verbatim>\<open>eps\<close> points to afterwards is the record handed
  in when the fetch failed (whether a create followed or not), and the record handed in
  with the token of the fetched record when the fetch succeeded. Name, namespace,
  labels and subsets are those of the record handed in, in every branch.
\<close>

theorem apply_frame:
  "\<exists>err eps' w'.
     CreateOrUpdateEndpoints c ns eps w = (err, eps', w') \<and>
     eps_Name eps' = eps_Name eps \<and> eps_Namespace eps' = eps_Namespace eps \<and>
     eps_Labels eps' = eps_Labels eps \<and> Subsets eps' = Subsets eps \<and>
     eps' =
       (case fst (Endpoints_Get c ns (eps_Name eps) (server w)) of
          Inl e \<Rightarrow> eps
        | Inr endpoints \<Rightarrow> eps\<lparr>eps_ResourceVersion := eps_ResourceVersion endpoints\<rparr>)"
  by (simp add: CreateOrUpdateEndpoints_def kube_Endpoints_Get_def kube_Endpoints_Create_def
      kube_Endpoints_Update_def Let_def split: sum.splits prod.splits)

theorem apply_frame_witness:
  "\<exists>err w'.
     CreateOrUpdateEndpoints mem_client ''kube-system'' ex_record ex_world_stored =
       (err, ex_record\<lparr>eps_ResourceVersion := ''v41''\<rparr>, w') \<and>
     eps_ResourceVersion ex_record = ''''"
proof -
  have g: "fst (Endpoints_Get mem_client ''kube-system'' (eps_Name ex_record) (server ex_world_stored)) =
      Inr ((DiscoveryRecord ex_service [])\<lparr>eps_Namespace := ''kube-system'',
             eps_ResourceVersion := ''v41''\<rparr>)"
    by (simp add: mem_client_def mem_Endpoints_Get_def ex_world_stored_def ex_cluster_stored_def
        ex_cluster_def ex_record_name)
  have t: "eps_ResourceVersion ex_record = ''''"
    by (simp add: ex_record_def DiscoveryRecord_def)
  show ?thesis
    using apply_frame [of mem_client "''kube-system''" ex_record ex_world_stored] g t
    by auto
qed

section \<open>Applying twice\<close>

text \<open>
  C6. On a server that fails no request and holds the service, two runs of
  \<^verbatim>\<open>syncNodeEndpoints\<close> in a row, for the same service and selector, both succeed. Each
  sends one write: the first a create when the server held no record (an update
  carrying the stored token when it did), the second an update carrying the token the
  first write was stored under. Both writes carry the same record but for the token,
  and the record stored after the first run and the one stored after the second have
  the same subsets: the addresses the matching machines resolve to and the ports of
  the service.
\<close>

theorem apply_twice:
  assumes faults: "cl_faults (server w) = (\<lambda>request. None)"
    and found: "find (\<lambda>svc. svc_Namespace svc = ns \<and> svc_Name svc = name)
                  (cl_services (server w)) = Some srv"
  shows "\<exists>w1 w2 stored1 stored2.
     syncNodeEndpoints mem_client ns name sel w = Return (None, w1) \<and>
     syncNodeEndpoints mem_client ns name sel w1 = Return (None, w2) \<and>
     filter is_write (calls w1) =
       filter is_write (calls w) @
         [case cl_endpoints (server w) (ns, name) of
            None \<Rightarrow> Call_Endpoints_Create ns (DiscoveryRecord srv (mem_addresses (server w) sel))
          | Some old \<Rightarrow>
              Call_Endpoints_Update ns
                ((DiscoveryRecord srv (mem_addresses (server w) sel))
                   \<lparr>eps_ResourceVersion := eps_ResourceVersion old\<rparr>)] \<and>
     cl_endpoints (server w1) (ns, name) = Some stored1 \<and>
     filter is_write (calls w2) =
       filter is_write (calls w1) @
         [Call_Endpoints_Update ns
            ((DiscoveryRecord srv (mem_addresses (server w) sel))
               \<lparr>eps_ResourceVersion := eps_ResourceVersion stored1\<rparr>)] \<and>
     cl_endpoints (server w2) (ns, name) = Some stored2 \<and>
     Subsets stored1 =
       [\<lparr>Addresses = mem_addresses (server w) sel, Ports = map EndpointPort_of (svc_Ports srv)\<rparr>] \<and>
     Subsets stored2 = Subsets stored1"
proof -
  let ?rec = "DiscoveryRecord srv (mem_addresses (server w) sel)"
  have name: "eps_Name ?rec = name"
    using found by (auto simp: find_Some_iff DiscoveryRecord_def)
  obtain w1 where 1: "syncNodeEndpoints mem_client ns name sel w = Return (None, w1)"
    and s1: "server w1 = snd (mem_store ns (mem_written (server w) ns ?rec) (server w))"
    and c1: "filter is_write (calls w1) =
               filter is_write (calls w) @ [mem_write (server w) ns ?rec]"
    using mem_sync_step [OF _ _ _ _ found, of sel] faults by auto
  let ?stored1 = "(mem_written (server w) ns ?rec)\<lparr>eps_Namespace := ns,
      eps_ResourceVersion := store_token (Suc (cl_revision (server w)))\<rparr>"
  have faults1: "cl_faults (server w1) = (\<lambda>request. None)"
    using faults by (simp add: s1 mem_store_frame)
  have found1: "find (\<lambda>svc. svc_Namespace svc = ns \<and> svc_Name svc = name)
                  (cl_services (server w1)) = Some srv"
    using found by (simp add: s1 mem_store_frame)
  have addrs1: "mem_addresses (server w1) sel = mem_addresses (server w) sel"
    by (simp add: s1 mem_store_frame)
  have e1: "cl_endpoints (server w1) (ns, name) = Some ?stored1"
    using mem_store_frame [of ns "mem_written (server w) ns ?rec" "server w"]
    by (simp add: s1 eps_Name_mem_written name)
  obtain w2 where 2: "syncNodeEndpoints mem_client ns name sel w1 = Return (None, w2)"
    and s2: "server w2 = snd (mem_store ns (mem_written (server w1) ns ?rec) (server w1))"
    and c2: "filter is_write (calls w2) =
               filter is_write (calls w1) @ [mem_write (server w1) ns ?rec]"
    using mem_sync_step [OF _ _ _ _ found1, of sel] faults1 by (auto simp: addrs1)
  let ?stored2 = "(mem_written (server w1) ns ?rec)\<lparr>eps_Namespace := ns,
      eps_ResourceVersion := store_token (Suc (cl_revision (server w1)))\<rparr>"
  have e2: "cl_endpoints (server w2) (ns, name) = Some ?stored2"
    using mem_store_frame [of ns "mem_written (server w1) ns ?rec" "server w1"]
    by (simp add: s2 eps_Name_mem_written name)
  have first: "mem_write (server w) ns ?rec =
      (case cl_endpoints (server w) (ns, name) of
         None \<Rightarrow> Call_Endpoints_Create ns ?rec
       | Some old \<Rightarrow> Call_Endpoints_Update ns (?rec\<lparr>eps_ResourceVersion := eps_ResourceVersion old\<rparr>))"
    by (simp add: mem_write_def name)
  have second: "mem_write (server w1) ns ?rec =
      Call_Endpoints_Update ns (?rec\<lparr>eps_ResourceVersion := eps_ResourceVersion ?stored1\<rparr>)"
    by (simp add: mem_write_def name e1)
  have sub1: "Subsets ?stored1 =
      [\<lparr>Addresses = mem_addresses (server w) sel, Ports = map EndpointPort_of (svc_Ports srv)\<rparr>]"
    by (simp add: Subsets_mem_written) (simp add: DiscoveryRecord_def)
  have sub2: "Subsets ?stored2 = Subsets ?stored1"
    by (simp add: Subsets_mem_written)
  show ?thesis
  proof (intro exI conjI)
    show "syncNodeEndpoints mem_client ns name sel w = Return (None, w1)"
      by (rule 1)
    show "syncNodeEndpoints mem_client ns name sel w1 = Return (None, w2)"
      by (rule 2)
    show "filter is_write (calls w1) =
       filter is_write (calls w) @
         [case cl_endpoints (server w) (ns, name) of
            None \<Rightarrow> Call_Endpoints_Create ns ?rec
          | Some old \<Rightarrow>
              Call_Endpoints_Update ns (?rec\<lparr>eps_ResourceVersion := eps_ResourceVersion old\<rparr>)]"
      using c1 first by simp
    show "cl_endpoints (server w1) (ns, name) = Some ?stored1"
      by (rule e1)
    show "filter is_write (calls w2) =
       filter is_write (calls w1) @
         [Call_Endpoints_Update ns
            (?rec\<lparr>eps_ResourceVersion := eps_ResourceVersion ?stored1\<rparr>)]"
      using c2 second by simp
    show "cl_endpoints (server w2) (ns, name) = Some ?stored2"
      by (rule e2)
    show "Subsets ?stored1 =
       [\<lparr>Addresses = mem_addresses (server w) sel,
         Ports = map EndpointPort_of (svc_Ports srv)\<rparr>]"
      by (rule sub1)
    show "Subsets ?stored2 = Subsets ?stored1"
      by (rule sub2)
  qed
qed

lemma ex_addresses:
  "mem_addresses ex_cluster ex_selector =
     [MachineAddress ex_node1 ''10.0.0.1'', MachineAddress ex_node2 ''203.0.113.5'']"
  by (simp add: mem_addresses_def ex_cluster_def ex_selector_def equality_selector_def
      ex_node1_def ex_node2_def ex_node3_def ex_labels_def resolved_def selectAddress_def
      addresses_of_type_def NodeInternalIP_def NodeExternalIP_def MachineAddress_def)

theorem apply_twice_witness:
  "cl_faults (server ex_world) = (\<lambda>request. None) \<and>
   find (\<lambda>svc. svc_Namespace svc = ''kube-system'' \<and>
                svc_Name svc = ''kube-scheduler-prometheus-discovery'')
     (cl_services (server ex_world)) = Some ex_service \<and>
   (\<exists>w1 w2 stored1 stored2.
      syncNodeEndpoints mem_client ''kube-system'' ''kube-scheduler-prometheus-discovery''
        ex_selector ex_world = Return (None, w1) \<and>
      syncNodeEndpoints mem_client ''kube-system'' ''kube-scheduler-prometheus-discovery''
        ex_selector w1 = Return (None, w2) \<and>
      filter is_write (calls w2) =
        [Call_Endpoints_Create ''kube-system'' ex_record,
         Call_Endpoints_Update ''kube-system''
           (ex_record\<lparr>eps_ResourceVersion := eps_ResourceVersion stored1\<rparr>)] \<and>
      cl_endpoints (server w1) (''kube-system'', ''kube-scheduler-prometheus-discovery'') =
        Some stored1 \<and>
      cl_endpoints (server w2) (''kube-system'', ''kube-scheduler-prometheus-discovery'') =
        Some stored2 \<and>
      Subsets stored1 = Subsets ex_record \<and> Subsets stored2 = Subsets ex_record)"
proof -
  have f: "cl_faults (server ex_world) = (\<lambda>request. None)"
    by (simp add: ex_world_def ex_cluster_def)
  have s: "find (\<lambda>svc. svc_Namespace svc = ''kube-system'' \<and>
                svc_Name svc = ''kube-scheduler-prometheus-discovery'')
     (cl_services (server ex_world)) = Some ex_service"
    by (simp add: ex_world_def ex_cluster_def ex_service_def)
  have a: "mem_addresses (server ex_world) ex_selector =
      [MachineAddress ex_node1 ''10.0.0.1'', MachineAddress ex_node2 ''203.0.113.5'']"
    by (simp add: ex_world_def ex_addresses)
  have e: "cl_endpoints (server ex_world) (''kube-system'', ''kube-scheduler-prometheus-discovery'') = None"
    by (simp add: ex_world_def ex_cluster_def)
  have c: "calls ex_world = []"
    by (simp add: ex_world_def)
  have r: "Subsets ex_record =
      [\<lparr>Addresses = [MachineAddress ex_node1 ''10.0.0.1'', MachineAddress ex_node2 ''203.0.113.5''],
        Ports = map EndpointPort_of (svc_Ports ex_service)\<rparr>]"
    by (simp add: ex_record_def DiscoveryRecord_def)
  let ?rec = "DiscoveryRecord ex_service (mem_addresses (server ex_world) ex_selector)"
  have rec: "?rec = ex_record"
    by (simp add: a ex_record_def)
  obtain w1 w2 stored1 stored2 where
    1: "syncNodeEndpoints mem_client ''kube-system'' ''kube-scheduler-prometheus-discovery''
          ex_selector ex_world = Return (None, w1)"
    and 2: "syncNodeEndpoints mem_client ''kube-system'' ''kube-scheduler-prometheus-discovery''
          ex_selector w1 = Return (None, w2)"
    and c1': "filter is_write (calls w1) =
       filter is_write (calls ex_world) @
         [case cl_endpoints (server ex_world)
                 (''kube-system'', ''kube-scheduler-prometheus-discovery'') of
            None \<Rightarrow> Call_Endpoints_Create ''kube-system'' ?rec
          | Some old \<Rightarrow>
              Call_Endpoints_Update ''kube-system''
                (?rec\<lparr>eps_ResourceVersion := eps_ResourceVersion old\<rparr>)]"
    and e1: "cl_endpoints (server w1) (''kube-system'', ''kube-scheduler-prometheus-discovery'') =
          Some stored1"
    and c2: "filter is_write (calls w2) =
          filter is_write (calls w1) @
            [Call_Endpoints_Update ''kube-system''
               (?rec\<lparr>eps_ResourceVersion := eps_ResourceVersion stored1\<rparr>)]"
    and e2: "cl_endpoints (server w2) (''kube-system'', ''kube-scheduler-prometheus-discovery'') =
          Some stored2"
    and s1': "Subsets stored1 =
       [\<lparr>Addresses = mem_addresses (server ex_world) ex_selector,
         Ports = map EndpointPort_of (svc_Ports ex_service)\<rparr>]"
    and s2: "Subsets stored2 = Subsets stored1"
    using apply_twice [OF f s, of ex_selector] by blast
  have c1: "filter is_write (calls w1) = [Call_Endpoints_Create ''kube-system'' ex_record]"
    using c1' by (simp add: e c rec)
  have s1: "Subsets stored1 = Subsets ex_record"
    using s1' by (simp add: a r)
  have "syncNodeEndpoints mem_client ''kube-system'' ''kube-scheduler-prometheus-discovery''
          ex_selector ex_world = Return (None, w1) \<and>
      syncNodeEndpoints mem_client ''kube-system'' ''kube-scheduler-prometheus-discovery''
        ex_selector w1 = Return (None, w2) \<and>
      filter is_write (calls w2) =
        [Call_Endpoints_Create ''kube-system'' ex_record,
         Call_Endpoints_Update ''kube-system''
           (ex_record\<lparr>eps_ResourceVersion := eps_ResourceVersion stored1\<rparr>)] \<and>
      cl_endpoints (server w1) (''kube-system'', ''kube-scheduler-prometheus-discovery'') =
        Some stored1 \<and>
      cl_endpoints (server w2) (''kube-system'', ''kube-scheduler-prometheus-discovery'') =
        Some stored2 \<and>
      Subsets stored1 = Subsets ex_record \<and> Subsets stored2 = Subsets ex_record"
    using 1 2 c1 c2 e1 e2 s1 s2 by (simp add: rec)
  then show ?thesis
    using f s by blast
qed

section \<open>A failure stays with its service\<close>

lemma syncAndLog_loop_step:
  assumes "svc_Annotations svc nodeSelectorLabel = Some sel"
  shows "\<exists>e w1.
     syncNodeEndpoints c (svc_Namespace svc) (svc_Name svc) sel w = Return (e, w1) \<and>
     syncAndLog_loop c (svc # rest) w =
       syncAndLog_loop c rest
         (case e of None \<Rightarrow> w1 | Some err \<Rightarrow> logrus ErrorLevel (Error err) w1)"
proof -
  from syncNodeEndpoints_returns [of c "svc_Namespace svc" "svc_Name svc" sel w]
  obtain e w1 where s: "syncNodeEndpoints c (svc_Namespace svc) (svc_Name svc) sel w = Return (e, w1)"
    by blast
  then show ?thesis
    using assms by (simp split: option.splits)
qed

lemma syncNodeEndpoints_list_failed:
  assumes "Services_Get c ns name (server w) = (Inr srv, s1)"
    and "Nodes_List c sel s1 = (Inl err, s2)"
  shows "syncNodeEndpoints c ns name sel w =
     Return (Some (Wrap err ''listing nodes failed''),
       w\<lparr>server := s2, calls := calls w @ [Call_Services_Get ns name, Call_Nodes_List sel],
         logs := logs w @ [(DebugLevel, ''starting sync of '' @ name)]\<rparr>)"
  using assms
  by (simp add: syncNodeEndpoints_def kube_Services_Get_def logrus_def
      syncNodeEndpoints_service_unfold kube_Nodes_List_def)

lemma syncAndLog_static_step:
  "service v \<noteq> '''' \<Longrightarrow> syncNodeEndpoints_static c v w = Return (e, w1) \<Longrightarrow>
   syncAndLog_static c (v # rest) w =
     syncAndLog_static c rest
       (case e of None \<Rightarrow> w1 | Some err \<Rightarrow> logrus ErrorLevel (Error err) w1)"
  by (simp split: option.splits)

text \<open>
  C5. In a cycle of the label-query variant, whatever the client does, every listed
  service that carries the annotation is taken up: the services fetched in the cycle
  are exactly those, in the order of the list. The loop never stops early: when the
  run for a service returns an error, the error is logged and the loop goes on with
  the rest of the list (a panic, the only other way out, cannot happen). In
  particular, for two services where listing the nodes of the first fails: the failure
  is logged with its cause, no write is sent for the first, the second is processed,
  and when its run succeeds the cycle ends with the write of its record. The loop of
  the static variant goes on in the same way after a run that returned an error.
\<close>

theorem fault_isolation:
  "(Services_List c '''' endpointsSyncEnabledService (server w) = (Inr items, s0) \<longrightarrow>
      (\<exists>w'. syncAndLog c w = Return w' \<and>
         filter is_Services_Get (drop (length (calls w)) (calls w')) =
           map (\<lambda>svc. Call_Services_Get (svc_Namespace svc) (svc_Name svc))
             (filter annotated items))) \<and>
   (svc_Annotations svc nodeSelectorLabel = Some sel \<longrightarrow>
      (\<exists>e w1.
         syncNodeEndpoints c (svc_Namespace svc) (svc_Name svc) sel w = Return (e, w1) \<and>
         syncAndLog_loop c (svc # rest) w =
           syncAndLog_loop c rest
             (case e of None \<Rightarrow> w1 | Some err \<Rightarrow> logrus ErrorLevel (Error err) w1))) \<and>
   (svc_Annotations a nodeSelectorLabel = Some sa \<and>
    svc_Annotations b nodeSelectorLabel = Some sb \<and>
    Services_Get c (svc_Namespace a) (svc_Name a) (server w) = (Inr srv, s1) \<and>
    Nodes_List c sa s1 = (Inl err, s2) \<longrightarrow>
      (\<exists>w1. server w1 = s2 \<and>
         calls w1 =
           calls w @ [Call_Services_Get (svc_Namespace a) (svc_Name a), Call_Nodes_List sa] \<and>
         logs w1 =
           logs w @ [(DebugLevel, ''starting sync of '' @ svc_Name a),
                     (ErrorLevel, ''listing nodes failed: '' @ Error err)] \<and>
         syncAndLog_loop c [a, b] w = syncAndLog_loop c [b] w1 \<and>
         (\<forall>w2. syncNodeEndpoints c (svc_Namespace b) (svc_Name b) sb w1 = Return (None, w2) \<longrightarrow>
            syncAndLog_loop c [a, b] w = Return w2 \<and> is_write (last (calls w2))))) \<and>
   (service v \<noteq> '''' \<and> syncNodeEndpoints_static c v w = Return (e', w1') \<longrightarrow>
      syncAndLog_static c (v # rest') w =
        syncAndLog_static c rest'
          (case e' of None \<Rightarrow> w1' | Some err \<Rightarrow> logrus ErrorLevel (Error err) w1'))"
proof (intro conjI impI)
  assume l: "Services_List c '''' endpointsSyncEnabledService (server w) = (Inr items, s0)"
  let ?w0 = "w\<lparr>server := s0, calls := calls w @ [Call_Services_List '''' endpointsSyncEnabledService]\<rparr>"
  from syncAndLog_loop_returns [of c items ?w0]
  obtain w' xs where r: "syncAndLog_loop c items ?w0 = Return w'" "calls w' = calls ?w0 @ xs"
    "filter is_Services_Get xs =
       map (\<lambda>svc. Call_Services_Get (svc_Namespace svc) (svc_Name svc)) (filter annotated items)"
    by blast
  have "syncAndLog c w = Return w'"
    using l r(1) by (simp add: syncAndLog_def kube_Services_List_def)
  then show "\<exists>w'. syncAndLog c w = Return w' \<and>
         filter is_Services_Get (drop (length (calls w)) (calls w')) =
           map (\<lambda>svc. Call_Services_Get (svc_Namespace svc) (svc_Name svc))
             (filter annotated items)"
    using r(2,3) by simp
next
  assume "svc_Annotations svc nodeSelectorLabel = Some sel"
  then show "\<exists>e w1.
         syncNodeEndpoints c (svc_Namespace svc) (svc_Name svc) sel w = Return (e, w1) \<and>
         syncAndLog_loop c (svc # rest) w =
           syncAndLog_loop c rest
             (case e of None \<Rightarrow> w1 | Some err \<Rightarrow> logrus ErrorLevel (Error err) w1)"
    by (rule syncAndLog_loop_step)
next
  assume h: "svc_Annotations a nodeSelectorLabel = Some sa \<and>
    svc_Annotations b nodeSelectorLabel = Some sb \<and>
    Services_Get c (svc_Namespace a) (svc_Name a) (server w) = (Inr srv, s1) \<and>
    Nodes_List c sa s1 = (Inl err, s2)"
  let ?wa = "w\<lparr>server := s2,
      calls := calls w @ [Call_Services_Get (svc_Namespace a) (svc_Name a), Call_Nodes_List sa],
      logs := logs w @ [(DebugLevel, ''starting sync of '' @ svc_Name a)]\<rparr>"
  let ?w1 = "logrus ErrorLevel (Error (Wrap err ''listing nodes failed'')) ?wa"
  have sa: "syncNodeEndpoints c (svc_Namespace a) (svc_Name a) sa w =
      Return (Some (Wrap err ''listing nodes failed''), ?wa)"
    using h by (simp add: syncNodeEndpoints_list_failed)
  have step: "syncAndLog_loop c [a, b] w = syncAndLog_loop c [b] ?w1"
    using h sa by simp
  have fin: "syncAndLog_loop c [a, b] w = Return w2 \<and> is_write (last (calls w2))"
    if ok: "syncNodeEndpoints c (svc_Namespace b) (svc_Name b) sb ?w1 = Return (None, w2)" for w2
  proof -
    from syncNodeEndpoints_returns [of c "svc_Namespace b" "svc_Name b" sb ?w1] ok
    have "is_write (last (calls w2))"
      by auto
    moreover have "syncAndLog_loop c [b] ?w1 = Return w2"
      using h ok by simp
    ultimately show ?thesis
      using step by simp
  qed
  show "\<exists>w1. server w1 = s2 \<and>
         calls w1 =
           calls w @ [Call_Services_Get (svc_Namespace a) (svc_Name a), Call_Nodes_List sa] \<and>
         logs w1 =
           logs w @ [(DebugLevel, ''starting sync of '' @ svc_Name a),
                     (ErrorLevel, ''listing nodes failed: '' @ Error err)] \<and>
         syncAndLog_loop c [a, b] w = syncAndLog_loop c [b] w1 \<and>
         (\<forall>w2. syncNodeEndpoints c (svc_Namespace b) (svc_Name b) sb w1 = Return (None, w2) \<longrightarrow>
            syncAndLog_loop c [a, b] w = Return w2 \<and> is_write (last (calls w2)))"
  proof (intro exI conjI allI impI)
    show "server ?w1 = s2" by (simp add: logrus_def)
    show "calls ?w1 =
           calls w @ [Call_Services_Get (svc_Namespace a) (svc_Name a), Call_Nodes_List sa]"
      by (simp add: logrus_def)
    show "logs ?w1 =
           logs w @ [(DebugLevel, ''starting sync of '' @ svc_Name a),
                     (ErrorLevel, ''listing nodes failed: '' @ Error err)]"
      by (simp add: logrus_def)
    show "syncAndLog_loop c [a, b] w = syncAndLog_loop c [b] ?w1" by (rule step)
    show "syncAndLog_loop c [a, b] w = Return w2"
      if "syncNodeEndpoints c (svc_Namespace b) (svc_Name b) sb ?w1 = Return (None, w2)" for w2
      using fin [OF that] by simp
    show "is_write (last (calls w2))"
      if "syncNodeEndpoints c (svc_Namespace b) (svc_Name b) sb ?w1 = Return (None, w2)" for w2
      using fin [OF that] by simp
  qed
next
  assume "service v \<noteq> '''' \<and> syncNodeEndpoints_static c v w = Return (e', w1')"
  then show "syncAndLog_static c (v # rest') w =
        syncAndLog_static c rest'
          (case e' of None \<Rightarrow> w1' | Some err \<Rightarrow> logrus ErrorLevel (Error err) w1')"
    using syncAndLog_static_step [of v c w e' w1' rest'] by blast
qed


theorem fault_isolation_witness:
  "svc_Annotations ex_service_down nodeSelectorLabel = Some ''role=down'' \<and>
   svc_Annotations ex_service nodeSelectorLabel = Some ex_selector \<and>
   Services_Get mem_client (svc_Namespace ex_service_down) (svc_Name ex_service_down)
     (server ex_world_two) = (Inr ex_service_down, ex_cluster_two) \<and>
   Nodes_List mem_client ''role=down'' ex_cluster_two = (Inl ex_timeout, ex_cluster_two) \<and>
   (\<exists>w2. syncAndLog_loop mem_client [ex_service_down, ex_service] ex_world_two = Return w2 \<and>
      is_write (last (calls w2)) \<and>
      filter is_write (calls w2) = [Call_Endpoints_Create ''kube-system'' ex_record])"
proof -
  have a: "svc_Annotations ex_service_down nodeSelectorLabel = Some ''role=down''"
    by (simp add: ex_service_down_def)
  have b: "svc_Annotations ex_service nodeSelectorLabel = Some ex_selector"
    by (simp add: ex_service_def)
  have g: "Services_Get mem_client (svc_Namespace ex_service_down) (svc_Name ex_service_down)
     (server ex_world_two) = (Inr ex_service_down, ex_cluster_two)"
    by (simp add: mem_client_def mem_Services_Get_def ex_world_two_def ex_cluster_two_def
        ex_cluster_def)
  have l: "Nodes_List mem_client ''role=down'' ex_cluster_two = (Inl ex_timeout, ex_cluster_two)"
    by (simp add: mem_client_def mem_Nodes_List_def ex_cluster_two_def ex_cluster_def)
  from fault_isolation [where c = mem_client and w = ex_world_two and a = ex_service_down
      and b = ex_service and sa = "''role=down''" and sb = ex_selector
      and srv = ex_service_down and ?s1.0 = ex_cluster_two and err = ex_timeout
      and ?s2.0 = ex_cluster_two] a b g l
  obtain w1 where w1: "server w1 = ex_cluster_two"
    "calls w1 = calls ex_world_two @
       [Call_Services_Get (svc_Namespace ex_service_down) (svc_Name ex_service_down),
        Call_Nodes_List ''role=down'']"
    "\<forall>w2. syncNodeEndpoints mem_client (svc_Namespace ex_service) (svc_Name ex_service)
            ex_selector w1 = Return (None, w2) \<longrightarrow>
          syncAndLog_loop mem_client [ex_service_down, ex_service] ex_world_two = Return w2 \<and>
          is_write (last (calls w2))"
    by blast
  have names: "svc_Namespace ex_service = ''kube-system''"
    "svc_Name ex_service = ''kube-scheduler-prometheus-discovery''"
    by (simp_all add: ex_service_def)
  have addrs: "mem_addresses ex_cluster_two ex_selector =
      [MachineAddress ex_node1 ''10.0.0.1'', MachineAddress ex_node2 ''203.0.113.5'']"
    using ex_addresses by (simp add: mem_addresses_def ex_cluster_two_def ex_cluster_def)
  have rec: "DiscoveryRecord ex_service (mem_addresses ex_cluster_two ex_selector) = ex_record"
    by (simp add: addrs ex_record_def)
  have wr: "mem_write ex_cluster_two ''kube-system'' ex_record =
      Call_Endpoints_Create ''kube-system'' ex_record"
    by (simp add: mem_write_def ex_cluster_two_def ex_cluster_def)
  have f1: "cl_faults (server w1)
      (Call_Services_Get ''kube-system'' ''kube-scheduler-prometheus-discovery'') = None"
    by (simp add: w1(1) ex_cluster_two_def)
  have f2: "cl_faults (server w1) (Call_Nodes_List ex_selector) = None"
    by (simp add: w1(1) ex_cluster_two_def ex_selector_def)
  have f3: "cl_faults (server w1)
      (Call_Endpoints_Get ''kube-system'' ''kube-scheduler-prometheus-discovery'') = None"
    by (simp add: w1(1) ex_cluster_two_def)
  have f4: "cl_faults (server w1)
      (mem_write (server w1) ''kube-system''
         (DiscoveryRecord ex_service (mem_addresses (server w1) ex_selector))) = None"
    by (simp add: w1(1) rec wr) (simp add: ex_cluster_two_def)
  have found: "find (\<lambda>svc. svc_Namespace svc = ''kube-system'' \<and>
        svc_Name svc = ''kube-scheduler-prometheus-discovery'') (cl_services (server w1)) =
      Some ex_service"
    by (simp add: w1(1) ex_cluster_two_def ex_service_down_def) (simp add: ex_service_def)
  from mem_sync_step [OF f1 f2 f3 f4 found]
  obtain w2 where w2: "syncNodeEndpoints mem_client ''kube-system''
        ''kube-scheduler-prometheus-discovery'' ex_selector w1 = Return (None, w2)"
    "filter is_write (calls w2) =
       filter is_write (calls w1) @
         [mem_write (server w1) ''kube-system''
            (DiscoveryRecord ex_service (mem_addresses (server w1) ex_selector))]"
    by blast
  have writes: "filter is_write (calls w2) = [Call_Endpoints_Create ''kube-system'' ex_record]"
    using w2(2) by (simp add: w1 rec wr ex_world_two_def)
  have "syncAndLog_loop mem_client [ex_service_down, ex_service] ex_world_two = Return w2 \<and>
      is_write (last (calls w2))"
    using w1(3) w2(1) by (simp add: names)
  then show ?thesis
    using a b g l writes by blast
qed

section \<open>The static variant: targets are checked once, at startup\<close>

lemma strings_Split_not_Nil: "strings_Split s sep \<noteq> []"
  by (induction s) (auto split: list.splits)

lemma length_strings_Split:
  "length (strings_Split s sep) = Suc (length (filter (\<lambda>c. c = sep) s))"
  by (induction s) (auto split: list.splits simp: strings_Split_not_Nil)

lemma strings_Split_no_sep: "sep \<notin> set s \<Longrightarrow> strings_Split s sep = [s]"
  by (induction s) auto

lemma main_validate_None:
  "main_validate list = None \<longleftrightarrow>
     list_all (\<lambda>v. service v = '''' \<or> wellformed (service v)) list"
  by (induction list) (auto simp: wellformed_def)

lemma main_validate_Some:
  "main_validate list = Some target \<Longrightarrow>
     target \<noteq> '''' \<and> \<not> wellformed target \<and> target \<in> service ` set list"
  by (induction list) (auto simp: wellformed_def split: if_splits)

lemma accessors_wellformed:
  "wellformed (service v) \<Longrightarrow>
     Service_Namespace v = Return (strings_Split (service v) CHR ''/'' ! 0) \<and>
     Service_Service v = Return (strings_Split (service v) CHR ''/'' ! 1)"
  by (simp add: wellformed_def Service_Namespace_def Service_Service_def slice_index_def)

lemma syncNodeEndpoints_static_returns:
  assumes "wellformed (service v)"
  shows "\<exists>e w1. syncNodeEndpoints_static c v w = Return (e, w1)"
proof -
  let ?ns = "strings_Split (service v) CHR ''/'' ! 0"
  let ?nm = "strings_Split (service v) CHR ''/'' ! 1"
  let ?w = "logrus DebugLevel (''starting sync of '' @ Name v) w"
  show ?thesis
  proof (cases "kube_Services_Get c ?ns ?nm ?w")
    case (Pair r w0)
    show ?thesis
    proof (cases r)
      case (Inl err)
      then show ?thesis
        using Pair accessors_wellformed [OF assms]
        by (simp add: syncNodeEndpoints_static_def Let_def)
    next
      case (Inr srv)
      from syncNodeEndpoints_service_returns [of c srv "NodeLabelSelector v" w0]
      obtain e w1 where "syncNodeEndpoints_service c srv (NodeLabelSelector v) w0 = Return (e, w1)"
        by blast
      then show ?thesis
        using Pair Inr accessors_wellformed [OF assms]
        by (simp add: syncNodeEndpoints_static_def Let_def)
    qed
  qed
qed

lemma syncAndLog_static_returns:
  "list_all (\<lambda>v. service v = '''' \<or> wellformed (service v)) list \<Longrightarrow>
   \<exists>w'. syncAndLog_static c list w = Return w'"
proof (induction list arbitrary: w)
  case Nil
  show ?case by simp
next
  case (Cons v vs)
  show ?case
  proof (cases "service v = ''''")
    case True
    then show ?thesis
      using Cons by simp
  next
    case False
    with Cons.prems have wf: "wellformed (service v)"
      by simp
    from syncNodeEndpoints_static_returns [OF wf, of c w]
    obtain e w1 where s: "syncNodeEndpoints_static c v w = Return (e, w1)"
      by blast
    have rest: "list_all (\<lambda>v. service v = '''' \<or> wellformed (service v)) vs"
      using Cons.prems by simp
    show ?thesis
      using False s Cons.IH [OF rest] by (cases e) simp_all
  qed
qed

lemma syncAndLog_static_configured:
  "syncAndLog_static c list w = syncAndLog_static c (filter configured list) w"
proof (induction list arbitrary: w)
  case Nil
  show ?case by simp
next
  case (Cons v vs)
  show ?case
    by (cases "service v = ''''")
       (auto simp: configured_def Cons.IH split: result.splits option.splits prod.splits)
qed

lemma main_static_cases:
  "main_static args w =
     (case main_validate (flag_Parse args serviceList) of
        None \<Rightarrow> Serve (flag_Parse args serviceList) (periodicSyncer_init w)
      | Some target \<Rightarrow> Exit (w\<lparr>logs := logs w @ [malformatted target]\<rparr>))"
  by (simp add: main_static_def Let_def logrus_def malformatted_def split: option.splits)

text \<open>
  C7. \<^verbatim>\<open>main\<close> of the static variant, for every command line: when every role has an
  empty target or one that splits into exactly two parts, it goes on to serve, and
  logs nothing (an empty target is passed over, by the check and by every cycle alike,
  without a word); otherwise it logs the first malformed target and returns before the
  client, the metrics listener and the syncer are made. When it serves, the list the
  cycles work on is the list that was checked: a cycle processes the roles that have a
  target and no others, and every one of them has a well-formed target.
\<close>

theorem startup_validation:
  "(list_all (\<lambda>v. service v = '''' \<or> wellformed (service v)) (flag_Parse args serviceList) \<longrightarrow>
      main_static args w = Serve (flag_Parse args serviceList) (periodicSyncer_init w)) \<and>
   (\<not> list_all (\<lambda>v. service v = '''' \<or> wellformed (service v)) (flag_Parse args serviceList) \<longrightarrow>
      (\<exists>target.
         main_static args w = Exit (w\<lparr>logs := logs w @ [malformatted target]\<rparr>) \<and>
         target \<noteq> '''' \<and> \<not> wellformed target \<and>
         target \<in> service ` set (flag_Parse args serviceList))) \<and>
   (main_static args w = Serve list s \<longrightarrow>
      list = flag_Parse args serviceList \<and> s = periodicSyncer_init w \<and>
      list_all (\<lambda>v. wellformed (service v)) (filter configured list) \<and>
      (\<forall>c w'. syncAndLog_static c list w' = syncAndLog_static c (filter configured list) w')) \<and>
   (service v = '''' \<longrightarrow>
      main_validate (v # vs) = main_validate vs \<and>
      syncAndLog_static c (v # vs) w = syncAndLog_static c vs w)"
proof (intro conjI impI)
  assume "list_all (\<lambda>v. service v = '''' \<or> wellformed (service v)) (flag_Parse args serviceList)"
  then show "main_static args w = Serve (flag_Parse args serviceList) (periodicSyncer_init w)"
    by (simp add: main_static_cases main_validate_None [symmetric])
next
  assume "\<not> list_all (\<lambda>v. service v = '''' \<or> wellformed (service v)) (flag_Parse args serviceList)"
  then obtain target where t: "main_validate (flag_Parse args serviceList) = Some target"
    by (auto simp: main_validate_None [symmetric])
  from main_validate_Some [OF t] t
  show "\<exists>target.
         main_static args w = Exit (w\<lparr>logs := logs w @ [malformatted target]\<rparr>) \<and>
         target \<noteq> '''' \<and> \<not> wellformed target \<and>
         target \<in> service ` set (flag_Parse args serviceList)"
    by (intro exI [of _ target]) (simp add: main_static_cases)
next
  assume a: "main_static args w = Serve list s"
  then have v: "main_validate (flag_Parse args serviceList) = None"
    and l: "list = flag_Parse args serviceList" and i: "s = periodicSyncer_init w"
    by (auto simp: main_static_cases split: option.splits)
  show "list = flag_Parse args serviceList" by (rule l)
  show "s = periodicSyncer_init w" by (rule i)
  from v have "list_all (\<lambda>v. service v = '''' \<or> wellformed (service v)) list"
    by (simp add: main_validate_None l)
  then show "list_all (\<lambda>v. wellformed (service v)) (filter configured list)"
    by (auto simp: list_all_iff configured_def)
  show "\<forall>c w'. syncAndLog_static c list w' = syncAndLog_static c (filter configured list) w'"
    using syncAndLog_static_configured by blast
next
  assume "service v = ''''"
  then show "main_validate (v # vs) = main_validate vs" by simp
next
  assume "service v = ''''"
  then show "syncAndLog_static c (v # vs) w = syncAndLog_static c vs w" by simp
qed

lemma ex_parsed:
  "flag_Parse ex_args serviceList =
     [\<lparr>NodeLabelSelector = ex_selector,
       service = ''kube-system/kube-scheduler-prometheus-discovery'', Name = ''scheduler''\<rparr>,
      \<lparr>NodeLabelSelector = '''', service = '''', Name = ''controller-manager''\<rparr>]"
  by (simp add: flag_Parse_def serviceList_def ex_args_def)

lemma ex_parsed_bad:
  "flag_Parse ex_args_bad serviceList =
     [\<lparr>NodeLabelSelector = '''', service = '''', Name = ''scheduler''\<rparr>,
      \<lparr>NodeLabelSelector = '''', service = ''kube-controller-manager'',
        Name = ''controller-manager''\<rparr>]"
  by (simp add: flag_Parse_def serviceList_def ex_args_bad_def)


theorem startup_validation_witness:
  "list_all (\<lambda>v. service v = '''' \<or> wellformed (service v)) (flag_Parse ex_args serviceList) \<and>
   main_static ex_args ex_world =
     Serve [\<lparr>NodeLabelSelector = ex_selector,
              service = ''kube-system/kube-scheduler-prometheus-discovery'', Name = ''scheduler''\<rparr>,
            \<lparr>NodeLabelSelector = '''', service = '''', Name = ''controller-manager''\<rparr>]
       (periodicSyncer_init ex_world) \<and>
   \<not> wellformed ''kube-controller-manager'' \<and>
   main_static ex_args_bad ex_world =
     Exit (ex_world\<lparr>logs := logs ex_world @ [malformatted ''kube-controller-manager'']\<rparr>)"
proof -
  have ok: "list_all (\<lambda>v. service v = '''' \<or> wellformed (service v)) (flag_Parse ex_args serviceList)"
    by (simp add: ex_parsed wellformed_def)
  have bad: "\<not> wellformed ''kube-controller-manager''"
    by (simp add: wellformed_def)
  then have nok: "\<not> list_all (\<lambda>v. service v = '''' \<or> wellformed (service v))
      (flag_Parse ex_args_bad serviceList)"
    by (simp add: ex_parsed_bad)
  from startup_validation [where args = ex_args and w = ex_world, THEN conjunct1] ok
  have one: "main_static ex_args ex_world =
      Serve (flag_Parse ex_args serviceList) (periodicSyncer_init ex_world)"
    by (rule mp)
  from startup_validation [where args = ex_args_bad and w = ex_world,
      THEN conjunct2, THEN conjunct1] nok
  have "\<exists>target.
      main_static ex_args_bad ex_world =
        Exit (ex_world\<lparr>logs := logs ex_world @ [malformatted target]\<rparr>) \<and>
      target \<noteq> '''' \<and> \<not> wellformed target \<and>
      target \<in> service ` set (flag_Parse ex_args_bad serviceList)"
    by (rule mp)
  then obtain target where t: "main_static ex_args_bad ex_world =
      Exit (ex_world\<lparr>logs := logs ex_world @ [malformatted target]\<rparr>)"
    and ne: "target \<noteq> ''''"
    and mem: "target \<in> service ` set (flag_Parse ex_args_bad serviceList)"
    by (elim exE conjE)
  from mem have "target = '''' \<or> target = ''kube-controller-manager''"
    unfolding ex_parsed_bad by simp
  with ne have "target = ''kube-controller-manager''"
    by simp
  with t have two: "main_static ex_args_bad ex_world =
      Exit (ex_world\<lparr>logs := logs ex_world @ [malformatted ''kube-controller-manager'']\<rparr>)"
    by simp
  have one': "main_static ex_args ex_world =
     Serve [\<lparr>NodeLabelSelector = ex_selector,
              service = ''kube-system/kube-scheduler-prometheus-discovery'', Name = ''scheduler''\<rparr>,
            \<lparr>NodeLabelSelector = '''', service = '''', Name = ''controller-manager''\<rparr>]
       (periodicSyncer_init ex_world)"
    using one unfolding ex_parsed .
  show ?thesis
    by (intro conjI) (rule ok one' bad two)+
qed

section \<open>The static variant: the accessors stay in range\<close>

lemma periodicSyncer_step_not_crashed:
  assumes "\<forall>w. \<exists>w'. cycle w = Return w'"
    and "\<forall>p. pc s \<noteq> Crashed p"
    and "periodicSyncer_step cycle e s = Some s'"
  shows "\<forall>p. pc s' \<noteq> Crashed p"
proof -
  obtain w' where "cycle (now s) = Return w'"
    using assms(1) by blast
  then show ?thesis
    using assms(2,3)
    by (cases e) (auto simp: periodicSyncer_step_def split: if_splits option.splits)
qed

lemma periodicSyncer_run_not_crashed:
  assumes "\<forall>w. \<exists>w'. cycle w = Return w'"
  shows "(\<forall>p. pc s \<noteq> Crashed p) \<Longrightarrow> periodicSyncer_run cycle es s = Some s' \<Longrightarrow>
         (\<forall>p. pc s' \<noteq> Crashed p)"
proof (induction es arbitrary: s)
  case Nil
  then show ?case by simp
next
  case (Cons e es)
  from Cons.prems(2) obtain s1 where 1: "periodicSyncer_step cycle e s = Some s1"
    and 2: "periodicSyncer_run cycle es s1 = Some s'"
    by (auto split: option.splits)
  from periodicSyncer_step_not_crashed [OF assms Cons.prems(1) 1]
  show ?case
    using Cons.IH 2 by blast
qed

text \<open>
  C9. The accessors index the parts of the target unguarded. On a target that splits
  into exactly two parts both return (the parts at index 0 and 1); on a target without a
  separator \<^verbatim>\<open>Namespace\<close> returns the whole target and \<^verbatim>\<open>Service\<close> panics, index 1
  out of range for length 1. When \<^verbatim>\<open>main\<close> serves, every role that has a target has a
  well-formed one, so no cycle panics for any client, and the syncer never crashes.
\<close>

theorem accessors_in_range:
  "(wellformed (service v) \<longrightarrow>
      Service_Namespace v = Return (strings_Split (service v) CHR ''/'' ! 0) \<and>
      Service_Service v = Return (strings_Split (service v) CHR ''/'' ! 1)) \<and>
   (CHR ''/'' \<notin> set (service v) \<longrightarrow>
      Service_Namespace v = Return (service v) \<and>
      Service_Service v = Panic (IndexOutOfRange 1 1)) \<and>
   (main_static args w = Serve list s \<longrightarrow>
      list_all (\<lambda>v. wellformed (service v)) (filter configured list) \<and>
      (\<forall>c w'. \<exists>w''. syncAndLog_static c list w' = Return w'') \<and>
      (\<forall>c es s'. periodicSyncer_run (syncAndLog_static c list) es s = Some s' \<longrightarrow>
         (\<forall>p. pc s' \<noteq> Crashed p)))"
proof (intro conjI impI)
  assume "wellformed (service v)"
  from accessors_wellformed [OF this]
  show "Service_Namespace v = Return (strings_Split (service v) CHR ''/'' ! 0)"
    and "Service_Service v = Return (strings_Split (service v) CHR ''/'' ! 1)"
    by simp_all
next
  assume "CHR ''/'' \<notin> set (service v)"
  then have "strings_Split (service v) CHR ''/'' = [service v]"
    by (rule strings_Split_no_sep)
  then show "Service_Namespace v = Return (service v)"
    and "Service_Service v = Panic (IndexOutOfRange 1 1)"
    by (simp_all add: Service_Namespace_def Service_Service_def slice_index_def)
next
  assume a: "main_static args w = Serve list s"
  then have v: "main_validate list = None" and i: "s = periodicSyncer_init w"
    by (auto simp: main_static_cases split: option.splits)
  then have ok: "list_all (\<lambda>v. service v = '''' \<or> wellformed (service v)) list"
    by (simp add: main_validate_None)
  then show "list_all (\<lambda>v. wellformed (service v)) (filter configured list)"
    by (auto simp: list_all_iff configured_def)
  show total: "\<forall>c w'. \<exists>w''. syncAndLog_static c list w' = Return w''"
    using syncAndLog_static_returns [OF ok] by blast
  show "\<forall>c es s'. periodicSyncer_run (syncAndLog_static c list) es s = Some s' \<longrightarrow>
         (\<forall>p. pc s' \<noteq> Crashed p)"
  proof (intro allI impI)
    fix c es s' p
    assume r: "periodicSyncer_run (syncAndLog_static c list) es s = Some s'"
    have t: "\<forall>w. \<exists>w'. syncAndLog_static c list w = Return w'"
      using total by blast
    have "\<forall>p. pc s \<noteq> Crashed p"
      by (simp add: i periodicSyncer_init_def)
    from periodicSyncer_run_not_crashed [OF t this r]
    show "pc s' \<noteq> Crashed p" by blast
  qed
qed

theorem accessors_in_range_witness:
  "wellformed ''kube-system/kube-scheduler-prometheus-discovery'' \<and>
   Service_Namespace
     \<lparr>NodeLabelSelector = ex_selector,
       service = ''kube-system/kube-scheduler-prometheus-discovery'', Name = ''scheduler''\<rparr> =
     Return ''kube-system'' \<and>
   Service_Service
     \<lparr>NodeLabelSelector = ex_selector,
       service = ''kube-system/kube-scheduler-prometheus-discovery'', Name = ''scheduler''\<rparr> =
     Return ''kube-scheduler-prometheus-discovery'' \<and>
   Service_Service
     \<lparr>NodeLabelSelector = '''', service = ''kube-controller-manager'',
       Name = ''controller-manager''\<rparr> = Panic (IndexOutOfRange 1 1) \<and>
   (\<exists>list s. main_static ex_args ex_world = Serve list s \<and>
      (\<exists>w'. syncAndLog_static mem_client list ex_world = Return w'))"
proof -
  let ?v = "\<lparr>NodeLabelSelector = ex_selector,
       service = ''kube-system/kube-scheduler-prometheus-discovery'', Name = ''scheduler''\<rparr>"
  let ?b = "\<lparr>NodeLabelSelector = '''', service = ''kube-controller-manager'',
       Name = ''controller-manager''\<rparr>"
  have parts: "strings_Split ''kube-system/kube-scheduler-prometheus-discovery'' CHR ''/'' =
      [''kube-system'', ''kube-scheduler-prometheus-discovery'']"
    by simp
  have wf: "wellformed (service ?v)"
    by (simp add: wellformed_def)
  have nosep: "CHR ''/'' \<notin> set (service ?b)"
    by simp
  have serve: "main_static ex_args ex_world =
      Serve (flag_Parse ex_args serviceList) (periodicSyncer_init ex_world)"
    by (simp add: main_static_cases ex_parsed)
  from accessors_in_range [where v = ?v, THEN conjunct1] wf
  have "Service_Namespace ?v = Return (strings_Split (service ?v) CHR ''/'' ! 0) \<and>
      Service_Service ?v = Return (strings_Split (service ?v) CHR ''/'' ! 1)"
    by (rule mp)
  then have 1: "Service_Namespace ?v = Return ''kube-system''"
    and 2: "Service_Service ?v = Return ''kube-scheduler-prometheus-discovery''"
    by (simp_all add: parts)
  from accessors_in_range [where v = ?b, THEN conjunct2, THEN conjunct1] nosep
  have "Service_Namespace ?b = Return (service ?b) \<and>
      Service_Service ?b = Panic (IndexOutOfRange 1 1)"
    by (rule mp)
  then have 3: "Service_Service ?b = Panic (IndexOutOfRange 1 1)"
    by (rule conjunct2)
  from accessors_in_range [where args = ex_args and w = ex_world
      and list = "flag_Parse ex_args serviceList" and s = "periodicSyncer_init ex_world",
      THEN conjunct2, THEN conjunct2] serve
  have "list_all (\<lambda>v. wellformed (service v)) (filter configured (flag_Parse ex_args serviceList)) \<and>
      (\<forall>c w'. \<exists>w''. syncAndLog_static c (flag_Parse ex_args serviceList) w' = Return w'') \<and>
      (\<forall>c es s'. periodicSyncer_run (syncAndLog_static c (flag_Parse ex_args serviceList)) es
          (periodicSyncer_init ex_world) = Some s' \<longrightarrow> (\<forall>p. pc s' \<noteq> Crashed p))"
    by (rule mp)
  then have t: "\<forall>c w'. \<exists>w''. syncAndLog_static c (flag_Parse ex_args serviceList) w' = Return w''"
    by (elim conjE)
  from t [rule_format, of mem_client ex_world]
  obtain w' where 4: "syncAndLog_static mem_client (flag_Parse ex_args serviceList) ex_world = Return w'"
    by (elim exE)
  have wf': "wellformed ''kube-system/kube-scheduler-prometheus-discovery''"
    using wf by simp
  have 5: "\<exists>list s. main_static ex_args ex_world = Serve list s \<and>
      (\<exists>w'. syncAndLog_static mem_client list ex_world = Return w')"
    by (intro exI conjI) (rule serve 4)+
  show ?thesis
    by (intro conjI) (rule wf' 1 2 3 5)+
qed

section \<open>The scheduler: one cycle at a time\<close>

lemma syncer_ok_init: "syncer_ok (periodicSyncer_init w)"
  by (simp add: syncer_ok_def periodicSyncer_init_def)

lemma syncer_ok_step:
  "syncer_ok s \<Longrightarrow> periodicSyncer_step cycle e s = Some s' \<Longrightarrow> syncer_ok s'"
  by (cases e)
     (auto simp: periodicSyncer_step_def syncer_ok_def
       split: if_splits option.splits result.splits syncer_pc.splits)

lemma syncer_ok_run:
  "syncer_ok s \<Longrightarrow> periodicSyncer_run cycle es s = Some s' \<Longrightarrow> syncer_ok s'"
proof (induction es arbitrary: s)
  case Nil
  then show ?case by simp
next
  case (Cons e es)
  from Cons.prems(2) obtain s1 where 1: "periodicSyncer_step cycle e s = Some s1"
    and 2: "periodicSyncer_run cycle es s1 = Some s'"
    by (auto split: option.splits)
  from syncer_ok_step [OF Cons.prems(1) 1] 2 show ?case
    by (rule Cons.IH)
qed

lemma Returned_step:
  "pc s = Returned \<Longrightarrow> periodicSyncer_step cycle e s = Some s' \<Longrightarrow>
   pc s' = Returned \<and> begun s' = begun s \<and> ended s' = ended s \<and> now s' = now s \<and>
   \<not> begins_cycle e"
  by (cases e) (auto simp: periodicSyncer_step_def split: if_splits option.splits)

lemma Returned_run:
  "pc s = Returned \<Longrightarrow> periodicSyncer_run cycle es s = Some s' \<Longrightarrow>
   pc s' = Returned \<and> begun s' = begun s \<and> ended s' = ended s \<and> now s' = now s \<and>
   \<not> list_ex begins_cycle es"
proof (induction es arbitrary: s)
  case Nil
  then show ?case by simp
next
  case (Cons e es)
  from Cons.prems(2) obtain s1 where 1: "periodicSyncer_step cycle e s = Some s1"
    and 2: "periodicSyncer_run cycle es s1 = Some s'"
    by (auto split: option.splits)
  from Returned_step [OF Cons.prems(1) 1]
  have a: "pc s1 = Returned" "begun s1 = begun s" "ended s1 = ended s" "now s1 = now s"
    "\<not> begins_cycle e"
    by simp_all
  from Cons.IH [OF a(1) 2] a show ?case
    by simp
qed

lemma begins_cycle_step:
  "begins_cycle e \<Longrightarrow> periodicSyncer_step cycle e s = Some s' \<Longrightarrow>
   pc s' = InCycle \<and> begun s' = Suc (begun s) \<and> ended s' = ended s \<and> now s' = now s \<and>
   stop_ready s' = stop_ready s \<and>
   (pc s = AtStart \<and> e = First_Cycle \<or>
    pc s = AtSelect \<and> e = Select_Tick \<and> tick_ready s \<and> \<not> tick_ready s')"
  by (cases e) (auto simp: periodicSyncer_step_def split: if_splits)

lemma select_stop_only:
  "pc s = AtSelect \<Longrightarrow> stop_ready s \<Longrightarrow> \<not> tick_ready s \<Longrightarrow>
   periodicSyncer_step cycle e s = Some s' \<Longrightarrow>
   e = Env_Stop \<or> e = Env_Tick \<or> (e = Select_Stop \<and> pc s' = Returned)"
  by (cases e) (auto simp: periodicSyncer_step_def split: if_splits)

lemma two_minutes: "unat (2 * time_Minute) = 120 * 1000000000"
  by (simp add: time_Minute_def)

lemma start_moves:
  "syncer_ok s \<Longrightarrow> pc s = AtStart \<Longrightarrow> periodicSyncer_step cycle e s = Some s' \<Longrightarrow>
   e = Env_Stop \<or> (e = First_Cycle \<and> pc s' = InCycle)"
  by (cases e) (auto simp: periodicSyncer_step_def syncer_ok_def split: if_splits option.splits)

lemma in_flight:
  "syncer_ok s \<Longrightarrow>
   begun s = ended s + (if pc s = InCycle \<or> (\<exists>p. pc s = Crashed p) then 1 else 0)"
  by (cases "pc s") (auto simp: syncer_ok_def)

lemma ticker_period:
  "syncer_ok s \<Longrightarrow> ticker s = Some d \<Longrightarrow>
   d = 2 * time_Minute \<and> unat d = 120 * 1000000000 \<and> 1 \<le> ended s"
  by (auto simp: syncer_ok_def two_minutes)

lemma returned_after_stop: "syncer_ok s \<Longrightarrow> pc s = Returned \<Longrightarrow> stop_ready s"
  by (simp add: syncer_ok_def)

text \<open>
  C8, as the code has it. The syncer's first move is the call of the cycle: no ticker
  exists before the first cycle has returned, and at the start nothing else can be
  done but make that call (the stop signal may arrive, and does not prevent it). The
  ticker, once made, has a period of two minutes, and every later cycle begins by
  taking one tick from it at the \<^verbatim>\<open>select\<close>. Cycles are sequential: the cycles begun
  exceed the cycles ended by one while a cycle runs and by nothing otherwise, and a
  cycle begins only from the start or from the \<^verbatim>\<open>select\<close>. Once the \<^verbatim>\<open>select\<close> has
  taken the stop signal the syncer has returned, and no run from there begins a cycle.
  At a \<^verbatim>\<open>select\<close> where the stop signal is ready and no tick is, returning is the
  syncer's only move; where a tick is ready the cycle may begin, and where the stop
  signal is ready the syncer may return, so where both are ready either may happen.
\<close>

theorem periodicSyncer_schedule:
  "periodicSyncer_step cycle First_Cycle (periodicSyncer_init w) =
     Some ((periodicSyncer_init w)\<lparr>pc := InCycle, begun := 1\<rparr>) \<and>
   ticker (periodicSyncer_init w) = None \<and>
   (periodicSyncer_run cycle es (periodicSyncer_init w) = Some s \<longrightarrow>
      begun s = ended s + (if pc s = InCycle \<or> (\<exists>p. pc s = Crashed p) then 1 else 0) \<and>
      (\<forall>d. ticker s = Some d \<longrightarrow>
         d = 2 * time_Minute \<and> unat d = 120 * 1000000000 \<and> 1 \<le> ended s) \<and>
      (\<forall>e s'. pc s = AtStart \<and> periodicSyncer_step cycle e s = Some s' \<longrightarrow>
         e = Env_Stop \<or> (e = First_Cycle \<and> pc s' = InCycle)) \<and>
      (\<forall>e s'. begins_cycle e \<and> periodicSyncer_step cycle e s = Some s' \<longrightarrow>
         pc s' = InCycle \<and> begun s' = Suc (begun s) \<and>
         (pc s = AtStart \<and> e = First_Cycle \<or>
          pc s = AtSelect \<and> e = Select_Tick \<and> tick_ready s \<and> \<not> tick_ready s')) \<and>
      (\<forall>e s'. pc s = AtSelect \<and> stop_ready s \<and> \<not> tick_ready s \<and>
         periodicSyncer_step cycle e s = Some s' \<longrightarrow>
         e = Env_Stop \<or> e = Env_Tick \<or> (e = Select_Stop \<and> pc s' = Returned)) \<and>
      (pc s = Returned \<longrightarrow>
         stop_ready s \<and>
         (\<forall>es' s'. periodicSyncer_run cycle es' s = Some s' \<longrightarrow>
            pc s' = Returned \<and> begun s' = begun s \<and> \<not> list_ex begins_cycle es')) \<and>
      (pc s = AtStart \<longrightarrow>
         periodicSyncer_step cycle First_Cycle s =
           Some (s\<lparr>pc := InCycle, begun := Suc (begun s)\<rparr>)) \<and>
      (pc s = AtSelect \<and> tick_ready s \<longrightarrow>
         periodicSyncer_step cycle Select_Tick s =
           Some (s\<lparr>pc := InCycle, tick_ready := False, begun := Suc (begun s)\<rparr>)) \<and>
      (pc s = AtSelect \<and> stop_ready s \<longrightarrow>
         periodicSyncer_step cycle Select_Stop s = Some (s\<lparr>pc := Returned, ticker := None\<rparr>)))"
proof (intro conjI impI allI)
  show "periodicSyncer_step cycle First_Cycle (periodicSyncer_init w) =
     Some ((periodicSyncer_init w)\<lparr>pc := InCycle, begun := 1\<rparr>)"
    by (simp add: periodicSyncer_step_def periodicSyncer_init_def)
  show "ticker (periodicSyncer_init w) = None"
    by (simp add: periodicSyncer_init_def)
next
  assume r: "periodicSyncer_run cycle es (periodicSyncer_init w) = Some s"
  have ok: "syncer_ok s"
    using syncer_ok_run [OF syncer_ok_init r] .
  show "begun s = ended s + (if pc s = InCycle \<or> (\<exists>p. pc s = Crashed p) then 1 else 0)"
    using ok by (rule in_flight)
next
  fix d
  assume r: "periodicSyncer_run cycle es (periodicSyncer_init w) = Some s"
    and t: "ticker s = Some d"
  have ok: "syncer_ok s"
    using syncer_ok_run [OF syncer_ok_init r] .
  have tp: "d = 2 * time_Minute \<and> unat d = 120 * 1000000000 \<and> 1 \<le> ended s"
    using ok t by (rule ticker_period)
  show "d = 2 * time_Minute"
    using tp by (elim conjE)
  show "unat d = 120 * 1000000000"
    using tp by (elim conjE)
  show "1 \<le> ended s"
    using tp by (elim conjE)
next
  fix e s'
  assume r: "periodicSyncer_run cycle es (periodicSyncer_init w) = Some s"
    and a: "pc s = AtStart \<and> periodicSyncer_step cycle e s = Some s'"
  have ok: "syncer_ok s"
    using syncer_ok_run [OF syncer_ok_init r] .
  from a have 1: "pc s = AtStart" and 2: "periodicSyncer_step cycle e s = Some s'"
    by simp_all
  show "e = Env_Stop \<or> (e = First_Cycle \<and> pc s' = InCycle)"
    using ok 1 2 by (rule start_moves)
next
  fix e s'
  assume a: "begins_cycle e \<and> periodicSyncer_step cycle e s = Some s'"
  then have 1: "begins_cycle e" and 2: "periodicSyncer_step cycle e s = Some s'"
    by simp_all
  from begins_cycle_step [OF 1 2]
  show "pc s' = InCycle" and "begun s' = Suc (begun s)"
    and "pc s = AtStart \<and> e = First_Cycle \<or>
          pc s = AtSelect \<and> e = Select_Tick \<and> tick_ready s \<and> \<not> tick_ready s'"
    by simp_all
next
  fix e s'
  assume a: "pc s = AtSelect \<and> stop_ready s \<and> \<not> tick_ready s \<and>
         periodicSyncer_step cycle e s = Some s'"
  then have 1: "pc s = AtSelect" and 2: "stop_ready s" and 3: "\<not> tick_ready s"
    and 4: "periodicSyncer_step cycle e s = Some s'"
    by simp_all
  show "e = Env_Stop \<or> e = Env_Tick \<or> (e = Select_Stop \<and> pc s' = Returned)"
    using 1 2 3 4 by (rule select_stop_only)
next
  assume r: "periodicSyncer_run cycle es (periodicSyncer_init w) = Some s"
    and p: "pc s = Returned"
  have ok: "syncer_ok s"
    using syncer_ok_run [OF syncer_ok_init r] .
  show "stop_ready s"
    using ok p by (rule returned_after_stop)
next
  fix es' s'
  assume p: "pc s = Returned" and r': "periodicSyncer_run cycle es' s = Some s'"
  from Returned_run [OF p r']
  show "pc s' = Returned" and "begun s' = begun s" and "\<not> list_ex begins_cycle es'"
    by simp_all
next
  assume "pc s = AtStart"
  then show "periodicSyncer_step cycle First_Cycle s =
           Some (s\<lparr>pc := InCycle, begun := Suc (begun s)\<rparr>)"
    by (simp add: periodicSyncer_step_def)
next
  assume "pc s = AtSelect \<and> tick_ready s"
  then show "periodicSyncer_step cycle Select_Tick s =
           Some (s\<lparr>pc := InCycle, tick_ready := False, begun := Suc (begun s)\<rparr>)"
    by (simp add: periodicSyncer_step_def)
next
  assume "pc s = AtSelect \<and> stop_ready s"
  then show "periodicSyncer_step cycle Select_Stop s = Some (s\<lparr>pc := Returned, ticker := None\<rparr>)"
    by (simp add: periodicSyncer_step_def)
qed

lemma ex_cycle_returns: "ex_cycle w = Return w"
  by (simp add: ex_cycle_def serviceList_def)

theorem periodicSyncer_schedule_witness:
  "periodicSyncer_run ex_cycle
     [First_Cycle, Cycle_Returns, Env_Tick, Select_Tick, Cycle_Returns, Env_Stop, Select_Stop]
     (periodicSyncer_init ex_world) =
     Some \<lparr>pc = Returned, ticker = None, tick_ready = False, stop_ready = True,
            begun = 2, ended = 2, now = ex_world\<rparr> \<and>
   periodicSyncer_run ex_cycle [Env_Stop]
     \<lparr>pc = Returned, ticker = None, tick_ready = False, stop_ready = True,
       begun = 2, ended = 2, now = ex_world\<rparr> =
     Some \<lparr>pc = Returned, ticker = None, tick_ready = False, stop_ready = True,
            begun = 2, ended = 2, now = ex_world\<rparr> \<and>
   periodicSyncer_step ex_cycle Select_Tick
     \<lparr>pc = Returned, ticker = None, tick_ready = False, stop_ready = True,
       begun = 2, ended = 2, now = ex_world\<rparr> = None"
proof -
  let ?f = "\<lparr>pc = Returned, ticker = None, tick_ready = False, stop_ready = True,
       begun = 2, ended = 2, now = ex_world\<rparr>"
  have run: "periodicSyncer_run ex_cycle
     [First_Cycle, Cycle_Returns, Env_Tick, Select_Tick, Cycle_Returns, Env_Stop, Select_Stop]
     (periodicSyncer_init ex_world) = Some ?f"
    by (simp add: periodicSyncer_step_def periodicSyncer_init_def ex_cycle_returns)
  have more: "periodicSyncer_run ex_cycle [Env_Stop] ?f = Some ?f"
    by (simp add: periodicSyncer_step_def)
  note all = periodicSyncer_schedule [where cycle = ex_cycle and w = ex_world and s = ?f
      and es = "[First_Cycle, Cycle_Returns, Env_Tick, Select_Tick, Cycle_Returns, Env_Stop,
                 Select_Stop]", THEN conjunct2, THEN conjunct2, THEN mp, OF run]
  note none = all [THEN conjunct2, THEN conjunct2, THEN conjunct2, THEN conjunct1]
  have tick: "periodicSyncer_step ex_cycle Select_Tick ?f = None"
  proof (cases "periodicSyncer_step ex_cycle Select_Tick ?f")
    case None
    then show ?thesis .
  next
    case (Some s')
    with none [rule_format, of Select_Tick s'] show ?thesis
      by simp
  qed
  show ?thesis
    by (intro conjI) (rule run more tick)+
qed

text \<open>
  C8, as the specification has it, does not hold: a cycle can begin after the stop
  signal has arrived. The static variant is started without flags. Its syncer runs the first
  cycle, takes a tick and runs the second; while the second runs, the stop signal
  arrives and the ticker fires. At the \<^verbatim>\<open>select\<close> that follows both receives can
  proceed, and the one from the ticker may be taken: a third cycle begins. And a stop
  signal that arrives before the syncer has made its first call does not keep it from
  making it.
\<close>

theorem cycle_begins_after_stop:
  "main_static Map.empty ex_world = Serve serviceList (periodicSyncer_init ex_world) \<and>
   periodicSyncer_run (syncAndLog_static mem_client serviceList)
     [First_Cycle, Cycle_Returns, Env_Tick, Select_Tick, Env_Stop, Env_Tick, Cycle_Returns]
     (periodicSyncer_init ex_world) = Some ex_syncer_stopped \<and>
   stop_ready ex_syncer_stopped \<and>
   periodicSyncer_step (syncAndLog_static mem_client serviceList) Select_Tick ex_syncer_stopped =
     Some (ex_syncer_stopped\<lparr>pc := InCycle, tick_ready := False, begun := 3\<rparr>) \<and>
   periodicSyncer_run (syncAndLog_static mem_client serviceList) [Env_Stop, First_Cycle]
     (periodicSyncer_init ex_world) =
     Some ((periodicSyncer_init ex_world)\<lparr>pc := InCycle, stop_ready := True, begun := 1\<rparr>)"
proof -
  have c: "syncAndLog_static mem_client serviceList = ex_cycle"
    by (simp add: ex_cycle_def)
  have m: "main_static Map.empty ex_world = Serve serviceList (periodicSyncer_init ex_world)"
    by (simp add: main_static_cases flag_Parse_def serviceList_def)
  have r: "periodicSyncer_run ex_cycle
     [First_Cycle, Cycle_Returns, Env_Tick, Select_Tick, Env_Stop, Env_Tick, Cycle_Returns]
     (periodicSyncer_init ex_world) = Some ex_syncer_stopped"
    by (simp add: periodicSyncer_step_def periodicSyncer_init_def ex_cycle_returns
        ex_syncer_stopped_def)
  have s: "stop_ready ex_syncer_stopped"
    by (simp add: ex_syncer_stopped_def)
  have t: "periodicSyncer_step ex_cycle Select_Tick ex_syncer_stopped =
     Some (ex_syncer_stopped\<lparr>pc := InCycle, tick_ready := False, begun := 3\<rparr>)"
    by (simp add: periodicSyncer_step_def ex_syncer_stopped_def)
  have f: "periodicSyncer_run ex_cycle [Env_Stop, First_Cycle] (periodicSyncer_init ex_world) =
     Some ((periodicSyncer_init ex_world)\<lparr>pc := InCycle, stop_ready := True, begun := 1\<rparr>)"
    by (simp add: periodicSyncer_step_def periodicSyncer_init_def)
  show ?thesis
    unfolding c by (intro conjI) (rule m r s t f)+
qed

end
